theory Spec2Isabelle
  imports Complex_Main "HOL-Library.Word"
begin

section \<open>Geometry conversion utilities of LSWMeshFlow: importers, exporters, statistics\<close>

text \<open>
  The development embeds \<open>GeometryConversionUtils.cpp\<close>. Conventions:
  \<^item> A \<open>const char*\<close> cursor into the mapped file is the list of bytes from the cursor
    onwards; the distance \<open>end - cursor\<close> is a natural number that stops at 0, so that
    \<open>cursor < end\<close> reads \<open>0 < avail\<close>. The view of a mapped file ends with its last
    page: the bytes between the end of the file and the end of that page read as NUL, and
    a read beyond the page is a fault (\<open>in_view\<close> below).
  \<^item> \<open>pmp::Scalar\<close> (a 32-bit float) is a type parameter \<open>'f\<close> in the importers and
    exporters: the value of a scanned text (\<open>val\<close>, \<open>sval\<close>) and the text printed for a
    value (\<open>fmt\<close>) are parameters. Where a statement is about distances, \<open>pmp::Scalar\<close>
    is a real number and the arithmetic is exact.
  \<^item> The only supported platform is Windows: \<open>unsigned long\<close> has 32 bits, \<open>size_t\<close> 64,
    and a stream opened without \<open>ios::binary\<close> translates line ends.
  \<^item> The worker threads of an import write disjoint slots and are joined before the
    merge, so an import is the list of the threads' results in thread order.
  \<^item> What a function writes to \<open>std::cerr\<close> is part of its result only for the distance
    statistics, where a claim is about it.
\<close>

subsection \<open>Outcomes\<close>

datatype exn = invalid_argument | length_error | bad_alloc

datatype fault = DivisionByZero | OutOfBounds | NonTermination

datatype 'a outcome = Returned 'a | Thrown exn | Crashed fault

subsection \<open>Bytes and the C scanners\<close>

abbreviation NL :: char where "NL \<equiv> CHR 0x0A"
abbreviation CR :: char where "CR \<equiv> CHR 0x0D"
abbreviation NUL :: char where "NUL \<equiv> CHR 0x00"
abbreviation SP :: char where "SP \<equiv> CHR '' ''"

text \<open>\<open>*cursor\<close>: the byte under the cursor. Past the end of the file it is NUL; the
  importers below test that the highest position they read is inside the mapped view.\<close>

fun peek :: "string \<Rightarrow> char" where
  "peek [] = NUL"
| "peek (c # cs) = c"

definition tolower :: "char \<Rightarrow> char" where
  "tolower c =
     (if 65 \<le> (of_char c :: nat) \<and> (of_char c :: nat) \<le> 90
      then char_of (of_char c + 32 :: nat) else c)"

definition isspace :: "char \<Rightarrow> bool" where
  "isspace c \<longleftrightarrow> c = SP \<or> c = CHR 0x09 \<or> c = NL \<or> c = CHR 0x0B \<or> c = CHR 0x0C \<or> c = CR"

definition isdigit :: "char \<Rightarrow> bool" where
  "isdigit c \<longleftrightarrow> 48 \<le> (of_char c :: nat) \<and> (of_char c :: nat) \<le> 57"

definition isxdigit :: "char \<Rightarrow> bool" where
  "isxdigit c \<longleftrightarrow>
     isdigit c \<or> (97 \<le> (of_char (tolower c) :: nat) \<and> (of_char (tolower c) :: nat) \<le> 102)"

definition isalnum :: "char \<Rightarrow> bool" where
  "isalnum c \<longleftrightarrow>
     isdigit c \<or> (97 \<le> (of_char (tolower c) :: nat) \<and> (of_char (tolower c) :: nat) \<le> 122)"

definition digit_of :: "char \<Rightarrow> nat" where
  "digit_of c = of_char c - 48"

definition dec_value :: "string \<Rightarrow> nat" where
  "dec_value ds = foldl (\<lambda>a c. 10 * a + digit_of c) 0 ds"

definition is_sign :: "char \<Rightarrow> bool" where
  "is_sign c \<longleftrightarrow> c = CHR ''+'' \<or> c = CHR ''-''"

definition sign_len :: "string \<Rightarrow> nat" where
  "sign_len s = (if is_sign (peek s) then 1 else 0)"

definition scan_digits :: "string \<Rightarrow> nat" where
  "scan_digits s = length (takeWhile isdigit s)"

text \<open>
  \<open>strtoul(s, &end, 10)\<close> with a 32-bit \<open>unsigned long\<close> (the only supported platform is
  Windows): white space, an optional sign, decimal digits. The result is the value and
  the number of bytes consumed; no digits is no conversion (\<open>end = s\<close>, value 0), a value
  out of range is \<open>ULONG_MAX\<close>, a minus sign negates modulo \<open>2^32\<close>.
\<close>

definition strtoul :: "string \<Rightarrow> 32 word \<times> nat" where
  "strtoul s =
     (let ws = length (takeWhile isspace s);
          s1 = drop ws s;
          sg = sign_len s1;
          ds = takeWhile isdigit (drop sg s1)
      in if ds = [] then (0, 0)
         else let v = int (dec_value ds);
                  w = (if 2 ^ 32 \<le> v then - 1
                       else if peek s1 = CHR ''-'' then - (of_int v) else of_int v)
              in (w, ws + sg + length ds))"

text \<open>
  The subject sequence of \<open>strtof\<close>, as the C standard has it: the longest prefix that is
  an optional sign followed by a decimal literal, a hexadecimal literal, \<open>inf\<close> or
  \<open>infinity\<close>, or \<open>nan\<close> with an optional \<open>(n-char-sequence)\<close>, letters in either case.
  The functions below give the length of that prefix, 0 when there is none.

  A decimal literal: digits with an optional point (at least one digit), and an exponent
  when it is complete.
\<close>

definition scan_exponent :: "string \<Rightarrow> nat" where
  "scan_exponent s =
     (if peek s = CHR ''e'' \<or> peek s = CHR ''E''
      then (let sg = sign_len (tl s); d = scan_digits (drop sg (tl s))
            in if d = 0 then 0 else 1 + sg + d)
      else 0)"

definition scan_decimal :: "string \<Rightarrow> nat" where
  "scan_decimal s =
     (let i = scan_digits s;
          s2 = drop i s;
          dot = (if peek s2 = CHR ''.'' then 1 else 0);
          f = (if dot = 1 then scan_digits (tl s2) else 0)
      in if i + f = 0 then 0
         else i + dot + f + scan_exponent (drop (dot + f) s2))"

text \<open>\<open>word\<close>, in lower case, starts \<open>s\<close> when the case of the letters is ignored.\<close>

definition starts_with :: "string \<Rightarrow> string \<Rightarrow> bool" where
  "starts_with word s \<longleftrightarrow> map tolower (take (length word) s) = word"

text \<open>A hexadecimal literal: \<open>0x\<close>, hexadecimal digits with an optional point (at least
  one digit), and a binary exponent when it is complete.\<close>

definition scan_binary_exponent :: "string \<Rightarrow> nat" where
  "scan_binary_exponent s =
     (if peek s = CHR ''p'' \<or> peek s = CHR ''P''
      then (let sg = sign_len (tl s); d = scan_digits (drop sg (tl s))
            in if d = 0 then 0 else 1 + sg + d)
      else 0)"

definition scan_hexadecimal :: "string \<Rightarrow> nat" where
  "scan_hexadecimal s =
     (if starts_with ''0x'' s
      then (let s1 = drop 2 s;
                i = length (takeWhile isxdigit s1);
                s2 = drop i s1;
                dot = (if peek s2 = CHR ''.'' then 1 else 0);
                f = (if dot = 1 then length (takeWhile isxdigit (tl s2)) else 0)
            in if i + f = 0 then 0
               else 2 + i + dot + f + scan_binary_exponent (drop (dot + f) s2))
      else 0)"

text \<open>\<open>infinity\<close>, \<open>inf\<close>, and \<open>nan\<close> with its optional sequence of letters, digits and
  underscores in parentheses.\<close>

definition scan_inf_nan :: "string \<Rightarrow> nat" where
  "scan_inf_nan s =
     (if starts_with ''infinity'' s then 8
      else if starts_with ''inf'' s then 3
      else if starts_with ''nan'' s
      then (let t = drop 3 s;
                k = length (takeWhile (\<lambda>c. isalnum c \<or> c = CHR ''_'') (drop 1 t))
            in if peek t = CHR ''('' \<and> peek (drop (1 + k) t) = CHR '')'' then 3 + (k + 2) else 3)
      else 0)"

definition scan_float :: "string \<Rightarrow> nat" where
  "scan_float s =
     (let sg = sign_len s;
          s1 = drop sg s;
          n = (if 0 < scan_inf_nan s1 then scan_inf_nan s1
               else if 0 < scan_hexadecimal s1 then scan_hexadecimal s1
               else scan_decimal s1)
      in if n = 0 then 0 else sg + n)"

text \<open>
  \<open>strtof(s, &end)\<close>: the value of the literal after the leading white space and the
  number of bytes consumed; no conversion gives 0 and consumes nothing. \<open>val\<close> is the
  value the library gives to a subject sequence.
\<close>

definition strtof :: "(string \<Rightarrow> 'f) \<Rightarrow> string \<Rightarrow> 'f \<times> nat" where
  "strtof val s =
     (let ws = length (takeWhile isspace s);
          n = scan_float (drop ws s)
      in if n = 0 then (val ''0'', 0) else (val (take n (drop ws s)), ws + n))"

text \<open>\<open>while (*cursor != '\n' && cursor < end) cursor++\<close>: the number of steps.\<close>

fun skip_to_newline :: "string \<Rightarrow> nat \<Rightarrow> nat" where
  "skip_to_newline [] avail = avail"
| "skip_to_newline (c # cs) avail =
     (if c \<noteq> NL \<and> 0 < avail then Suc (skip_to_newline cs (avail - 1)) else 0)"

text \<open>\<open>while (*cursor != ' ' && *cursor != '\n' && cursor < end) cursor++\<close>: the number of steps.\<close>

fun skip_to_space :: "string \<Rightarrow> nat \<Rightarrow> nat" where
  "skip_to_space [] avail = avail"
| "skip_to_space (c # cs) avail =
     (if c \<noteq> SP \<and> c \<noteq> NL \<and> 0 < avail then Suc (skip_to_space cs (avail - 1)) else 0)"

subsection \<open>The mesh data and the OBJ chunk parser\<close>

type_synonym 'f vec3 = "'f \<times> 'f \<times> 'f"

record 'f BaseMeshGeometryData =
  Vertices :: "'f vec3 list"
  PolyIndices :: "32 word list list"
  VertexNormals :: "'f vec3 list"

text \<open>\<open>ChunkData\<close>, the per-thread result; its fields carry a prefix to keep them apart
  from those of \<open>BaseMeshGeometryData\<close>.\<close>

record 'f ChunkData =
  chunk_Vertices :: "'f vec3 list"
  chunk_VertexNormals :: "'f vec3 list"
  chunk_PolyIndices :: "32 word list list"

definition empty_ChunkData :: "'f ChunkData" where
  "empty_ChunkData = \<lparr>chunk_Vertices = [], chunk_VertexNormals = [], chunk_PolyIndices = []\<rparr>"

text \<open>
  The optional \<open>/texcoord/normal\<close> suffix of a face index (lines 102 to 117): the
  number of bytes the cursor moves.
\<close>

definition skip_slashes :: "string \<Rightarrow> nat" where
  "skip_slashes s =
     (if peek s = CHR ''/''
      then (let t = (if peek (drop 1 s) \<noteq> CHR ''/'' then snd (strtoul (drop 1 s)) else 0);
                n = (if peek (drop (1 + t) s) = CHR ''/''
                     then 1 + snd (strtoul (drop (2 + t) s)) else 0)
            in 1 + t + n)
      else 0)"

text \<open>
  One pass of the face loop after a successful index (lines 102 to 124): the suffix,
  the run to the next space or newline, one space.
\<close>

definition face_advance :: "string \<Rightarrow> nat \<Rightarrow> nat" where
  "face_advance s avail =
     (let a = skip_slashes s;
          b = skip_to_space (drop a s) (avail - a)
      in a + b + (if peek (drop (a + b) s) = SP then 1 else 0))"

text \<open>
  The face loop (lines 87 to 125): the bytes consumed and the indices collected.
\<close>

function parse_face :: "string \<Rightarrow> nat \<Rightarrow> 32 word list \<Rightarrow> nat \<times> 32 word list" where
  "parse_face s avail acc =
     (if peek s \<noteq> NL \<and> 0 < avail
      then (if snd (strtoul s) = 0 then (0, acc)
            else if fst (strtoul s) = 0 then (snd (strtoul s), acc)
            else (let n = snd (strtoul s);
                      k = n + face_advance (drop n s) (avail - n);
                      r = parse_face (drop k s) (avail - k) (acc @ [fst (strtoul s) - 1])
                  in (k + fst r, snd r)))
      else (0, acc))"
  by pat_completeness auto
termination
  by (relation "measure (\<lambda>(s, avail, acc). avail)") auto

declare parse_face.simps [simp del]

text \<open>One pass of the loop of \<open>ParseChunk\<close> (lines 52 to 141): the bytes consumed and
  the data.\<close>

definition parse_record :: "(string \<Rightarrow> 'f) \<Rightarrow> string \<Rightarrow> nat \<Rightarrow> 'f ChunkData \<Rightarrow> nat \<times> 'f ChunkData" where
  "parse_record val s avail data =
     (if peek s = NL then (1, data)
      else if take 2 s = ''v '' \<or> take 3 s = ''vn ''
      then (let isNormal = (take 3 s = ''vn '');
                k = (if isNormal then 3 else 2);
                x = strtof val (drop k s);
                y = strtof val (drop (k + snd x) s);
                z = strtof val (drop (k + snd x + snd y) s);
                vec = (fst x, fst y, fst z)
            in (k + snd x + snd y + snd z,
                if isNormal then data\<lparr>chunk_VertexNormals := chunk_VertexNormals data @ [vec]\<rparr>
                else data\<lparr>chunk_Vertices := chunk_Vertices data @ [vec]\<rparr>))
      else if take 2 s = ''f ''
      then (let r = parse_face (drop 2 s) (avail - 2) [];
                m = 2 + fst r;
                l = skip_to_newline (drop m s) (avail - m)
            in (m + l + (if 0 < avail - (m + l) then 1 else 0),
                if snd r \<noteq> [] then data\<lparr>chunk_PolyIndices := chunk_PolyIndices data @ [snd r]\<rparr>
                else data))
      else (skip_to_newline s avail, data))"

lemma skip_to_newline_pos: "0 < avail \<Longrightarrow> peek s \<noteq> NL \<Longrightarrow> 0 < skip_to_newline s avail"
  by (cases s) auto

lemma parse_record_pos: "0 < avail \<Longrightarrow> 0 < fst (parse_record val s avail data)"
  unfolding parse_record_def Let_def
  by (simp add: skip_to_newline_pos)

function ParseChunk :: "(string \<Rightarrow> 'f) \<Rightarrow> string \<Rightarrow> nat \<Rightarrow> 'f ChunkData \<Rightarrow> 'f ChunkData" where
  "ParseChunk val s avail data =
     (if 0 < avail
      then (let r = parse_record val s avail data
            in ParseChunk val (drop (fst r) s) (avail - fst r) (snd r))
      else data)"
  by pat_completeness auto
termination
proof (relation "measure (\<lambda>(val, s, avail, data). avail)")
  show "wf (measure (\<lambda>(val, s, avail, data). avail))" by simp
next
  fix val :: "string \<Rightarrow> 'f" and s avail data r
  assume "0 < avail" and "r = parse_record val s avail data"
  then show "((val, drop (fst r) s, avail - fst r, snd r), (val, s, avail, data))
      \<in> measure (\<lambda>(val, s, avail, data). avail)"
    using parse_record_pos [of avail val s data] by simp
qed

declare ParseChunk.simps [simp del]

subsection \<open>Paths, files and I/O events\<close>

text \<open>
  Modelled from the spec: \<open>Utils::ExtractLowercaseFileExtensionFromPath\<close> lives in
  \<open>utils/StringUtils.h\<close>, which is not among the sources. The spec calls its result
  "the lowercase file extension": the text after the last dot, in lower case, and
  nothing when the path has no dot.
\<close>

definition ExtractLowercaseFileExtensionFromPath :: "string \<Rightarrow> string" where
  "ExtractLowercaseFileExtensionFromPath path =
     (if CHR ''.'' \<in> set path
      then map tolower (rev (takeWhile (\<lambda>c. c \<noteq> CHR ''.'') (rev path)))
      else [])"

text \<open>
  The file system as the functions see it: the files that can be opened for reading with
  their contents, and the paths on which an output stream opens. Every attempt to open a
  file is recorded, in order.
\<close>

type_synonym files = "string \<rightharpoonup> string"

datatype io_event = CreateFile string | ofstream_open string | ifstream_open string

text \<open>
  \<open>MapViewOfFile\<close> maps whole pages of 4096 bytes. The view holds the bytes of the file
  and, when the size of the file is not a multiple of the page size, zero bytes up to
  the end of the last page. \<open>in_view file p\<close>: the byte at offset \<open>p\<close> from the start of
  the view can be read. A read outside the view is \<open>Crashed OutOfBounds\<close>.
\<close>

definition page_size :: int where
  "page_size = 4096"

definition in_view :: "string \<Rightarrow> nat \<Rightarrow> bool" where
  "in_view file p \<longleftrightarrow> int p < int (length file) + (- int (length file)) mod page_size"

text \<open>
  A \<open>std::ofstream\<close> or \<open>std::ifstream\<close> opened without \<open>ios::binary\<close> is in text mode.
  Written, a newline reaches the file as carriage return and newline. Read, a carriage
  return before a newline is dropped, and the byte \<open>0x1A\<close> ends the file.
\<close>

definition text_mode :: "string \<Rightarrow> string" where
  "text_mode text = concat (map (\<lambda>c. if c = NL then [CR, NL] else [c]) text)"

fun text_mode_read :: "string \<Rightarrow> string" where
  "text_mode_read [] = []"
| "text_mode_read (c # cs) =
     (if c = CHR 0x1A then []
      else if c = CR \<and> peek cs = NL then text_mode_read cs
      else c # text_mode_read cs)"

subsection \<open>The OBJ importer\<close>

text \<open>
  Lines 573 to 579: \<open>chunk_end\<close> runs to the next newline and past it, unless it is the
  end of the file. Offsets are relative to \<open>file_start\<close>.
\<close>

definition OBJ_adjust_chunk_end :: "string \<Rightarrow> nat \<Rightarrow> nat \<Rightarrow> nat" where
  "OBJ_adjust_chunk_end file file_size chunk_end =
     (let e = chunk_end + skip_to_newline (drop chunk_end file) (file_size - chunk_end)
      in if e \<noteq> file_size then e + 1 else e)"

text \<open>Lines 569 to 582: the pair \<open>(chunk_start, chunk_end)\<close> handed to thread \<open>i\<close>.\<close>

definition OBJ_chunk :: "string \<Rightarrow> nat \<Rightarrow> nat \<Rightarrow> nat \<Rightarrow> nat \<times> nat" where
  "OBJ_chunk file file_size thread_count i =
     (let chunk_size = file_size div thread_count;
          chunk_start = i * chunk_size;
          chunk_end = (if i = thread_count - 1 then file_size else chunk_start + chunk_size)
      in (chunk_start, OBJ_adjust_chunk_end file file_size chunk_end))"

definition OBJ_chunks :: "string \<Rightarrow> nat \<Rightarrow> nat \<Rightarrow> (nat \<times> nat) list" where
  "OBJ_chunks file file_size thread_count =
     map (OBJ_chunk file file_size thread_count) [0..<thread_count]"

text \<open>
  \<open>ImportOBJMeshGeometryData\<close> (lines 520 to 614). \<open>hw\<close> is what
  \<open>std::thread::hardware_concurrency()\<close> returns (0 when it is not known, and then
  \<open>file_size / thread_count\<close> divides by zero). \<open>GetFileSize\<close> gives the low 32 bits of
  the size, and \<open>CreateFileMapping\<close> fails on a file of length 0. The threads are joined
  before the merge, which takes their results in thread order; each thread writes its
  own slot only, so the result is the one of running them one after the other. The
  optional list of chunk ids per vertex is an extra output and is left out.

  The loop of line 574 dereferences \<open>chunk_end\<close> before it compares it with \<open>file_end\<close>,
  and for the last thread \<open>chunk_end\<close> is \<open>file_end\<close>: every import reads the byte at
  \<open>file_end\<close>. So do lines 87, 120, 131 and 139 of \<open>ParseChunk\<close> with a cursor at the end
  of the last chunk. No explicit read goes further: a cursor moves past a byte it has
  read and found not to be NUL, and the library scanners stop at a NUL. So the import
  is a read out of bounds exactly when the byte at \<open>file_end\<close> is outside the view. On
  a file of \<open>2^32\<close> bytes or more \<open>file_end\<close> lies inside the file, and a scanner reads
  the bytes of the file behind it. Behind the last byte of the file the model reads NUL,
  which is what the view holds there unless such a file fills its last page.
\<close>

definition ImportOBJMeshGeometryData ::
  "(string \<Rightarrow> 'f) \<Rightarrow> nat \<Rightarrow> files \<Rightarrow> string \<Rightarrow> bool
   \<Rightarrow> 'f BaseMeshGeometryData option outcome \<times> io_event list" where
  "ImportOBJMeshGeometryData val hw fs absFileName importInParallel =
     (if ExtractLowercaseFileExtensionFromPath absFileName \<noteq> ''obj'' then (Returned None, [])
      else case fs absFileName of
          None \<Rightarrow> (Returned None, [CreateFile absFileName])
        | Some file \<Rightarrow>
            if file = [] then (Returned None, [CreateFile absFileName])
            else let file_size = nat (int (length file) mod 2 ^ 32);
                     thread_count = (if importInParallel then hw else 1)
                 in if thread_count = 0 then (Crashed DivisionByZero, [CreateFile absFileName])
                    else if \<not> in_view file file_size
                    then (Crashed OutOfBounds, [CreateFile absFileName])
                    else let threadResults =
                               map (\<lambda>(chunk_start, chunk_end).
                                      ParseChunk val (drop chunk_start file)
                                        (chunk_end - chunk_start) empty_ChunkData)
                                 (OBJ_chunks file file_size thread_count)
                         in (Returned (Some
                               \<lparr>Vertices = concat (map chunk_Vertices threadResults),
                                PolyIndices = concat (map chunk_PolyIndices threadResults),
                                VertexNormals = concat (map chunk_VertexNormals threadResults)\<rparr>),
                             [CreateFile absFileName]))"

text \<open>Two vertex lines of eight bytes each, and a decimal text standing for its value.\<close>

definition two_vertices_obj :: string where
  "two_vertices_obj = ''v 1 2 3'' @ [NL] @ ''v 4 5 6'' @ [NL]"

subsection \<open>The PLY header reader and the point-cloud chunk parser\<close>

text \<open>The run to the next newline or NUL (line 248); the carriage return a line may end with.\<close>

fun line_len :: "string \<Rightarrow> nat" where
  "line_len [] = 0"
| "line_len (c # cs) = (if c \<noteq> NL \<and> c \<noteq> NUL then Suc (line_len cs) else 0)"

definition strip_cr :: "string \<Rightarrow> string" where
  "strip_cr line = (if line \<noteq> [] \<and> last line = CR then butlast line else line)"

text \<open>\<open>iss >> word\<close> on a stream: the rest of the text after one white-space delimited word.\<close>

definition skip_word :: "string \<Rightarrow> string" where
  "skip_word s = dropWhile (\<lambda>c. \<not> isspace c) (dropWhile isspace s)"

definition first_word :: "string \<Rightarrow> string" where
  "first_word s = takeWhile (\<lambda>c. \<not> isspace c) (dropWhile isspace s)"

text \<open>
  \<open>iss >> vertexCount\<close> for a \<open>size_t\<close>: white space, an optional sign, digits. The value
  of the variable after the extraction, and whether the extraction succeeded. At the end
  of the stream the extraction fails before anything is stored and the variable keeps its
  value; a field without a digit stores 0, one that overflows stores the largest value, a
  minus sign negates modulo \<open>2^64\<close>.
\<close>

definition read_size_t :: "64 word \<Rightarrow> string \<Rightarrow> 64 word \<times> bool" where
  "read_size_t vertexCount s =
     (let s1 = dropWhile isspace s;
          ds = takeWhile isdigit (drop (sign_len s1) s1)
      in if s1 = [] then (vertexCount, False)
         else if ds = [] then (0, False)
         else let v = int (dec_value ds)
              in if 2 ^ 64 \<le> v then (- 1, False)
                 else if peek s1 = CHR ''-'' then (- (of_int v), True) else (of_int v, True))"

text \<open>
  One pass of the loop of \<open>ReadPLYVertexHeader\<close> (lines 246 to 283) on a cursor that is not
  at a NUL: the bytes consumed, the vertex count after the pass, and whether the loop
  goes on (\<open>continue\<close> after a count that does not parse, \<open>break\<close> at \<open>end_header\<close>).
\<close>

definition header_line :: "string \<Rightarrow> 64 word \<Rightarrow> nat \<times> 64 word \<times> bool" where
  "header_line s vertexCount =
     (let n = line_len s;
          line = strip_cr (take n s);
          m = n + (if peek (drop n s) \<noteq> NUL then 1 else 0)
      in if take 14 line = ''element vertex''
         then (let r = read_size_t vertexCount (skip_word (skip_word line))
               in if \<not> snd r then (m, fst r, True)
                  else (m, fst r, line \<noteq> ''end_header''))
         else (m, vertexCount, line \<noteq> ''end_header''))"

lemma header_line_pos: "peek s \<noteq> NUL \<Longrightarrow> 0 < fst (header_line s vertexCount)"
  by (cases s) (simp_all add: header_line_def Let_def)

text \<open>
  The loop of \<open>ReadPLYVertexHeader\<close>: the vertex count, the position where it stopped, and
  whether it has read the byte behind the last byte of \<open>s\<close>. It does so when the test of
  line 246 finds the cursor there, and when the scan of a line (line 248) runs to it.
\<close>

function header_loop :: "string \<Rightarrow> nat \<Rightarrow> 64 word \<Rightarrow> 64 word \<times> nat \<times> bool" where
  "header_loop s cursor vertexCount =
     (if s = [] then (vertexCount, cursor, True)
      else if peek s \<noteq> NUL
      then (let r = header_line s vertexCount
            in if snd (snd r)
               then header_loop (drop (fst r) s) (cursor + fst r) (fst (snd r))
               else (fst (snd r), cursor + fst r, line_len s = length s))
      else (vertexCount, cursor, False))"
  by pat_completeness auto
termination
proof (relation "measure (\<lambda>(s, cursor, vertexCount). length s)")
  show "wf (measure (\<lambda>(s, cursor, vertexCount). length s))" by simp
next
  fix s :: string and cursor :: nat and vertexCount r
  assume "s \<noteq> []" and "peek s \<noteq> NUL" and "r = header_line s vertexCount"
  then have "0 < fst r" and "s \<noteq> []"
    using header_line_pos [of s vertexCount] by auto
  then show "((drop (fst r) s, cursor + fst r, fst (snd r)), (s, cursor, vertexCount))
      \<in> measure (\<lambda>(s, cursor, vertexCount). length s)"
    by simp
qed

declare header_loop.simps [simp del]

text \<open>
  \<open>ReadPLYVertexHeader\<close> (lines 238 to 292): the vertex count and the position where the
  loop stopped. The position is a pointer: \<open>None\<close> would be the null pointer, and the
  function never returns it, since the cursor starts at the mapped file and only moves
  forward. A vertex count of 0 is reported on the error stream only.
  \<open>ReadPLYVertexHeader_reads_end\<close> tells whether the call has read the byte behind the
  last byte of the file.
\<close>

definition ReadPLYVertexHeader :: "string \<Rightarrow> 64 word \<times> nat option" where
  "ReadPLYVertexHeader start =
     (let r = header_loop start 0 0 in (fst r, Some (fst (snd r))))"

definition ReadPLYVertexHeader_reads_end :: "string \<Rightarrow> bool" where
  "ReadPLYVertexHeader_reads_end start = snd (snd (header_loop start 0 0))"

text \<open>\<open>while ((*cursor == ' ' || *cursor == '\n') && cursor < end) cursor++\<close>: the number of steps.\<close>

fun skip_blank :: "string \<Rightarrow> nat \<Rightarrow> nat" where
  "skip_blank [] avail = 0"
| "skip_blank (c # cs) avail =
     (if (c = SP \<or> c = NL) \<and> 0 < avail then Suc (skip_blank cs (avail - 1)) else 0)"

text \<open>
  \<open>iss >> x\<close> for a \<open>float\<close>: the value and the number of bytes consumed, or \<open>None\<close> when
  the extraction fails. The stream skips white space and collects a field: an optional
  sign, digits with an optional point, and, after a digit, an exponent letter with an
  optional sign and digits. The extraction fails at the end of the stream, on a field
  without a digit, on an exponent without a digit, and when the conversion of the field
  reports a range error. \<open>sval\<close> is the conversion of a complete field: its value, or
  \<open>None\<close> for a range error. The stream reads neither \<open>inf\<close> nor \<open>nan\<close> nor, with its
  default flags, a hexadecimal field.
\<close>

definition stream_float :: "(string \<Rightarrow> 'f option) \<Rightarrow> string \<Rightarrow> ('f \<times> nat) option" where
  "stream_float sval s =
     (let ws = length (takeWhile isspace s);
          s1 = drop ws s;
          sg = sign_len s1;
          s2 = drop sg s1;
          i = scan_digits s2;
          s3 = drop i s2;
          dot = (if peek s3 = CHR ''.'' then 1 else 0);
          f = (if dot = 1 then scan_digits (tl s3) else 0);
          s4 = drop (dot + f) s3;
          e = (if 0 < i + f \<and> (peek s4 = CHR ''e'' \<or> peek s4 = CHR ''E'') then 1 else 0);
          esg = (if e = 1 then sign_len (tl s4) else 0);
          d = (if e = 1 then scan_digits (drop esg (tl s4)) else 0);
          n = sg + i + dot + f + e + esg + d
      in if i + f = 0 \<or> (e = 1 \<and> d = 0) then None
         else map_option (\<lambda>v. (v, ws + n)) (sval (take n s1)))"

text \<open>\<open>iss >> vertex[0] >> vertex[1] >> vertex[2]\<close>: three numbers, or a failed stream.\<close>

definition read_vec3 :: "(string \<Rightarrow> 'f option) \<Rightarrow> string \<Rightarrow> 'f vec3 option" where
  "read_vec3 sval line =
     (case stream_float sval line of
        None \<Rightarrow> None
      | Some (x, nx) \<Rightarrow>
          (case stream_float sval (drop nx line) of
             None \<Rightarrow> None
           | Some (y, ny) \<Rightarrow>
               (case stream_float sval (drop (nx + ny) line) of
                  None \<Rightarrow> None
                | Some (z, nz) \<Rightarrow> Some (x, y, z))))"

text \<open>
  One pass of the loop of \<open>ParsePointCloudChunk\<close> (lines 179 to 229): \<open>None\<close> when the
  loop breaks, else the bytes consumed and the data.
\<close>

definition point_line ::
  "(string \<Rightarrow> 'f option) \<Rightarrow> string \<Rightarrow> nat \<Rightarrow> 'f vec3 list \<Rightarrow> (nat \<times> 'f vec3 list) option" where
  "point_line sval s avail data =
     (let w = skip_blank s avail;
          s1 = drop w s;
          a1 = avail - w
      in if a1 = 0 then None
         else let n = skip_to_newline s1 a1
              in if peek (drop n s1) \<noteq> NL \<and> a1 - n = 0 then None
                 else let line = strip_cr (take n s1);
                          m = n + (if 0 < a1 - n then 1 else 0)
                      in (case read_vec3 sval line of
                            None \<Rightarrow> Some (w + m, data)
                          | Some vertex \<Rightarrow> Some (w + m, data @ [vertex])))"

lemma skip_blank_stops:
  "0 < avail - skip_blank s avail \<Longrightarrow> peek (drop (skip_blank s avail) s) \<noteq> NL"
proof (induction s arbitrary: avail)
  case Nil
  then show ?case by simp
next
  case (Cons c cs)
  show ?case
  proof (cases "(c = SP \<or> c = NL) \<and> 0 < avail")
    case True
    with Cons.prems have "0 < (avail - 1) - skip_blank cs (avail - 1)" by simp
    from Cons.IH [OF this] True show ?thesis by simp
  next
    case False
    with Cons.prems show ?thesis by auto
  qed
qed

lemma point_line_pos:
  assumes "point_line sval s avail data = Some (k, d)"
  shows "0 < k"
proof -
  define w where "w = skip_blank s avail"
  have a1: "0 < avail - w"
    using assms by (auto simp: point_line_def Let_def w_def split: if_splits)
  then have "peek (drop w s) \<noteq> NL"
    unfolding w_def by (rule skip_blank_stops)
  with a1 have "0 < skip_to_newline (drop w s) (avail - w)"
    by (simp add: skip_to_newline_pos)
  with assms show ?thesis
    by (auto simp: point_line_def Let_def w_def split: if_splits option.splits)
qed

function ParsePointCloudChunk ::
  "(string \<Rightarrow> 'f option) \<Rightarrow> string \<Rightarrow> nat \<Rightarrow> 'f vec3 list \<Rightarrow> 'f vec3 list" where
  "ParsePointCloudChunk sval s avail data =
     (if 0 < avail
      then (case point_line sval s avail data of
              None \<Rightarrow> data
            | Some (k, d) \<Rightarrow> ParsePointCloudChunk sval (drop k s) (avail - k) d)
      else data)"
  by pat_completeness auto
termination
proof (relation "measure (\<lambda>(sval, s, avail, data). avail)")
  show "wf (measure (\<lambda>(sval, s, avail, data). avail))" by simp
next
  fix sval :: "string \<Rightarrow> 'f option" and s avail data x k d
  assume "0 < avail" and "point_line sval s avail data = Some x" and "(k, d) = x"
  then show "((sval, drop k s, avail - k, d), (sval, s, avail, data))
      \<in> measure (\<lambda>(sval, s, avail, data). avail)"
    using point_line_pos [of sval s avail data k d] by simp
qed

declare ParsePointCloudChunk.simps [simp del]

subsection \<open>The PLY importers\<close>

text \<open>Lines 700 to 718: a chunk boundary runs to the next newline and past it, while it
  is before the end of the file.\<close>

definition PLY_adjust :: "string \<Rightarrow> nat \<Rightarrow> nat \<Rightarrow> nat" where
  "PLY_adjust file file_size p =
     (let q = p + skip_to_newline (drop p file) (file_size - p)
      in if q < file_size then q + 1 else q)"

text \<open>Lines 684 to 721: the pair \<open>(chunk_start, chunk_end)\<close> handed to thread \<open>i\<close>;
  \<open>file_start\<close> is the offset of the vertex data.\<close>

definition PLY_chunk :: "string \<Rightarrow> nat \<Rightarrow> nat \<Rightarrow> nat \<Rightarrow> nat \<Rightarrow> nat \<times> nat" where
  "PLY_chunk file file_size file_start thread_count i =
     (let adjusted_file_size = file_size - file_start;
          chunk_size = max (adjusted_file_size div thread_count) 1;
          chunk_start = file_start + i * chunk_size;
          chunk_end = (if i = thread_count - 1 then file_size else chunk_start + chunk_size)
      in (if 0 < i then PLY_adjust file file_size chunk_start else chunk_start,
          PLY_adjust file file_size chunk_end))"

definition PLY_chunks :: "string \<Rightarrow> nat \<Rightarrow> nat \<Rightarrow> nat \<Rightarrow> (nat \<times> nat) list" where
  "PLY_chunks file file_size file_start thread_count =
     map (PLY_chunk file file_size file_start thread_count) [0..<thread_count]"

text \<open>
  \<open>ImportPLYPointCloudData\<close> (lines 616 to 741). The vertex count of the header is bound
  and never read; the header is refused only when the returned pointer is null.

  The reads of the mapped view: the header reader may read the byte behind the file. The
  loops of lines 700 and 711 dereference a chunk boundary before they compare it with
  \<open>file_end\<close>; the boundaries are \<open>file_end\<close> for the end of the last chunk and
  \<open>file_start + i * chunk_size\<close> for the start of chunk \<open>i\<close>, which lies behind \<open>file_end\<close>
  when there are more threads than bytes. \<open>ParsePointCloudChunk\<close> reads no byte behind
  the end of its chunk. So the highest position read is the larger of \<open>file_end\<close> and
  the nominal start of the last chunk.
\<close>

definition ImportPLYPointCloudData ::
  "(string \<Rightarrow> 'f option) \<Rightarrow> nat \<Rightarrow> files \<Rightarrow> string \<Rightarrow> bool
   \<Rightarrow> 'f vec3 list option outcome \<times> io_event list" where
  "ImportPLYPointCloudData sval hw fs absFileName importInParallel =
     (if ExtractLowercaseFileExtensionFromPath absFileName \<noteq> ''ply'' then (Returned None, [])
      else case fs absFileName of
          None \<Rightarrow> (Returned None, [CreateFile absFileName])
        | Some file \<Rightarrow>
            if file = [] then (Returned None, [CreateFile absFileName])
            else if ReadPLYVertexHeader_reads_end file \<and> \<not> in_view file (length file)
            then (Crashed OutOfBounds, [CreateFile absFileName])
            else let file_size = nat (int (length file) mod 2 ^ 32)
                 in (case snd (ReadPLYVertexHeader file) of
                       None \<Rightarrow> (Returned None, [CreateFile absFileName])
                     | Some vertexDataStart \<Rightarrow>
                         if file_size \<le> vertexDataStart then (Returned None, [CreateFile absFileName])
                         else let thread_count = (if importInParallel then hw else 1)
                              in if thread_count = 0
                                 then (Crashed DivisionByZero, [CreateFile absFileName])
                                 else if \<not> in_view file
                                            (max file_size
                                               (vertexDataStart + (thread_count - 1) *
                                                  max ((file_size - vertexDataStart) div thread_count) 1))
                                 then (Crashed OutOfBounds, [CreateFile absFileName])
                                 else let threadResults =
                                            map (\<lambda>(chunk_start, chunk_end).
                                                   ParsePointCloudChunk sval (drop chunk_start file)
                                                     (chunk_end - chunk_start) [])
                                              (PLY_chunks file file_size vertexDataStart thread_count)
                                      in (Returned (Some (concat threadResults)),
                                          [CreateFile absFileName])))"

text \<open>\<open>std::getline\<close> over the whole stream: the lines, without their newlines.\<close>

fun getlines :: "string \<Rightarrow> string \<Rightarrow> string list" where
  "getlines [] cur = (if cur = [] then [] else [rev cur])"
| "getlines (c # cs) cur = (if c = NL then rev cur # getlines cs [] else getlines cs (c # cur))"

text \<open>
  The header loop of \<open>ImportPLYPointCloudDataMainThread\<close> (lines 764 to 779): the vertex
  count, whether \<open>end_header\<close> was seen, and the lines left in the stream. The loop
  condition reads a line before it tests \<open>headerEnded\<close>, so the line after \<open>end_header\<close>
  is consumed.
\<close>

fun MainThread_header :: "string list \<Rightarrow> 64 word \<Rightarrow> bool \<Rightarrow> 64 word \<times> bool \<times> string list" where
  "MainThread_header [] vertexCount headerEnded = (vertexCount, headerEnded, [])"
| "MainThread_header (line # rest) vertexCount headerEnded =
     (if headerEnded then (vertexCount, headerEnded, rest)
      else if first_word line = ''element''
      then (if first_word (skip_word line) = ''vertex''
            then MainThread_header rest
                   (fst (read_size_t vertexCount (skip_word (skip_word line)))) headerEnded
            else MainThread_header rest vertexCount headerEnded)
      else if first_word line = ''end_header'' then MainThread_header rest vertexCount True
      else MainThread_header rest vertexCount headerEnded)"

text \<open>
  \<open>ImportPLYPointCloudDataMainThread\<close> (lines 743 to 802). The stream is in text mode.
  \<open>vertices.reserve(vertexCount)\<close> throws \<open>std::length_error\<close> when the count is above
  \<open>max_size()\<close>, which is \<open>(2^64 - 1) / 12\<close> for vectors of three floats, and
  \<open>std::bad_alloc\<close> when the allocator cannot deliver the block; \<open>can_allocate n\<close> tells
  whether it delivers \<open>n\<close> bytes.
\<close>

definition vector_max_size :: int where
  "vector_max_size = (2 ^ 64 - 1) div 12"

definition ImportPLYPointCloudDataMainThread ::
  "(string \<Rightarrow> 'f option) \<Rightarrow> (int \<Rightarrow> bool) \<Rightarrow> files \<Rightarrow> string
   \<Rightarrow> 'f vec3 list option outcome \<times> io_event list" where
  "ImportPLYPointCloudDataMainThread sval can_allocate fs absFileName =
     (if ExtractLowercaseFileExtensionFromPath absFileName \<noteq> ''ply'' then (Returned None, [])
      else case fs absFileName of
          None \<Rightarrow> (Returned None, [ifstream_open absFileName])
        | Some file \<Rightarrow>
            (case MainThread_header (getlines (text_mode_read file) []) 0 False of
               (vertexCount, headerEnded, rest) \<Rightarrow>
                 if \<not> headerEnded \<or> vertexCount = 0
                 then (Returned None, [ifstream_open absFileName])
                 else if vector_max_size < uint vertexCount
                 then (Thrown length_error, [ifstream_open absFileName])
                 else if \<not> can_allocate (12 * uint vertexCount)
                 then (Thrown bad_alloc, [ifstream_open absFileName])
                 else (Returned (Some (concat (map (\<lambda>line. case read_vec3 sval line of
                                                    None \<Rightarrow> [] | Some vertex \<Rightarrow> [vertex]) rest))),
                       [ifstream_open absFileName])))"

subsection \<open>The exporters\<close>

text \<open>\<open>file << n\<close> for an unsigned integer: its decimal digits.\<close>

fun show_dec :: "nat \<Rightarrow> string" where
  "show_dec n = (if n < 10 then [char_of (48 + n)] else show_dec (n div 10) @ [char_of (48 + n mod 10)])"

declare show_dec.simps [simp del]

definition show_vec3 :: "('f \<Rightarrow> string) \<Rightarrow> 'f vec3 \<Rightarrow> string" where
  "show_vec3 fmt v = (case v of (x, y, z) \<Rightarrow> fmt x @ [SP] @ fmt y @ [SP] @ fmt z @ [NL])"

text \<open>
  An exporter returns its boolean, the files it tried to open and the bytes of each
  file it closed: the text it wrote, in text mode. \<open>writable\<close> tells on which paths a
  \<open>std::ofstream\<close> opens.
\<close>

type_synonym export_result = "bool \<times> io_event list \<times> (string \<times> string) list"

definition OBJ_text :: "('f \<Rightarrow> string) \<Rightarrow> 'f BaseMeshGeometryData \<Rightarrow> string" where
  "OBJ_text fmt geomData =
     concat (map (\<lambda>vertex. ''v '' @ show_vec3 fmt vertex) (Vertices geomData)) @
     concat (map (\<lambda>normal. ''vn '' @ show_vec3 fmt normal) (VertexNormals geomData)) @
     concat (map (\<lambda>indices. ''f'' @ concat (map (\<lambda>index. SP # show_dec (unat (index + 1))) indices) @ [NL])
               (PolyIndices geomData))"

definition ExportBaseMeshGeometryDataToOBJ ::
  "('f \<Rightarrow> string) \<Rightarrow> (string \<Rightarrow> bool) \<Rightarrow> 'f BaseMeshGeometryData \<Rightarrow> string \<Rightarrow> export_result" where
  "ExportBaseMeshGeometryDataToOBJ fmt writable geomData absFileName =
     (if \<not> writable absFileName then (False, [ofstream_open absFileName], [])
      else (True, [ofstream_open absFileName], [(absFileName, text_mode (OBJ_text fmt geomData))]))"

definition VTK_text :: "('f \<Rightarrow> string) \<Rightarrow> 'f BaseMeshGeometryData \<Rightarrow> string" where
  "VTK_text fmt geomData =
     ''# vtk DataFile Version 3.0'' @ [NL] @ ''VTK output from mesh data'' @ [NL] @
     ''ASCII'' @ [NL] @ ''DATASET POLYDATA'' @ [NL] @
     ''POINTS '' @ show_dec (length (Vertices geomData)) @ '' float'' @ [NL] @
     concat (map (show_vec3 fmt) (Vertices geomData)) @
     ''POLYGONS '' @ show_dec (length (PolyIndices geomData)) @ [SP] @
       show_dec (sum_list (map (\<lambda>indices. length indices + 1) (PolyIndices geomData))) @ [NL] @
     concat (map (\<lambda>indices. show_dec (length indices) @
                    concat (map (\<lambda>index. SP # show_dec (unat index)) indices) @ [NL])
               (PolyIndices geomData)) @
     (if VertexNormals geomData \<noteq> []
      then ''POINT_DATA '' @ show_dec (length (VertexNormals geomData)) @ [NL] @
           ''NORMALS normals float'' @ [NL] @
           concat (map (show_vec3 fmt) (VertexNormals geomData))
      else [])"

definition ExportBaseMeshGeometryDataToVTK ::
  "('f \<Rightarrow> string) \<Rightarrow> (string \<Rightarrow> bool) \<Rightarrow> 'f BaseMeshGeometryData \<Rightarrow> string \<Rightarrow> export_result" where
  "ExportBaseMeshGeometryDataToVTK fmt writable geomData absFileName =
     (if \<not> writable absFileName then (False, [ofstream_open absFileName], [])
      else (True, [ofstream_open absFileName], [(absFileName, text_mode (VTK_text fmt geomData))]))"

definition PLY_header :: "nat \<Rightarrow> string" where
  "PLY_header nVerts =
     ''ply'' @ [NL] @ ''format ascii 1.0'' @ [NL] @
     ''element vertex '' @ show_dec nVerts @ [NL] @
     ''property float x'' @ [NL] @ ''property float y'' @ [NL] @ ''property float z'' @ [NL] @
     ''end_header'' @ [NL]"

text \<open>
  \<open>ExportPointsToPLY\<close> (lines 867 to 916). The file is opened twice, as \<open>file\<close> and as
  \<open>outFile\<close>; the count in the header is the size as an \<open>unsigned int\<close>.
\<close>

definition ExportPointsToPLY ::
  "('f \<Rightarrow> string) \<Rightarrow> (string \<Rightarrow> bool) \<Rightarrow> 'f BaseMeshGeometryData \<Rightarrow> string \<Rightarrow> export_result" where
  "ExportPointsToPLY fmt writable meshData absFileName =
     (if ExtractLowercaseFileExtensionFromPath absFileName \<noteq> ''ply'' then (False, [], [])
      else if Vertices meshData = [] then (False, [], [])
      else if \<not> writable absFileName then (False, [ofstream_open absFileName], [])
      else if \<not> writable absFileName
      then (False, [ofstream_open absFileName, ofstream_open absFileName], [])
      else (True, [ofstream_open absFileName, ofstream_open absFileName],
            [(absFileName,
              text_mode (PLY_header (unat (of_nat (length (Vertices meshData)) :: 32 word)) @
                         concat (map (show_vec3 fmt) (Vertices meshData))))]))"

text \<open>
  \<open>ExportPolylinesToOBJ\<close> (lines 918 to 957): the \<open>l\<close> records of the polylines from a
  running index.
\<close>

fun polyline_segments :: "nat \<Rightarrow> 'f vec3 list list \<Rightarrow> string" where
  "polyline_segments indexOffset [] = []"
| "polyline_segments indexOffset (polyline # rest) =
     (if length polyline < 2 then polyline_segments indexOffset rest
      else concat (map (\<lambda>i. ''l '' @ show_dec (i + indexOffset) @ [SP] @
                               show_dec (i + indexOffset + 1) @ [NL])
                     [0..<length polyline - 1]) @
           polyline_segments (indexOffset + length polyline) rest)"

definition ExportPolylinesToOBJ ::
  "('f \<Rightarrow> string) \<Rightarrow> (string \<Rightarrow> bool) \<Rightarrow> 'f vec3 list list \<Rightarrow> string \<Rightarrow> export_result" where
  "ExportPolylinesToOBJ fmt writable polylines absFileName =
     (if ExtractLowercaseFileExtensionFromPath absFileName \<noteq> ''obj'' then (False, [], [])
      else if \<not> writable absFileName then (False, [ofstream_open absFileName], [])
      else (True, [ofstream_open absFileName],
            [(absFileName,
              text_mode (concat (map (\<lambda>vertex. ''v '' @ show_vec3 fmt vertex) (concat polylines)) @
                         polyline_segments 1 polylines))]))"

text \<open>
  \<open>ExportSampledVerticesToPLY\<close> (lines 804 to 865). The standard library enters as
  parameters: \<open>mt19937 s\<close> is the state of a \<open>std::mt19937\<close> seeded with \<open>s\<close>,
  \<open>distrib a b gen\<close> is one draw of a \<open>std::uniform_int_distribution<int>(a, b)\<close> with
  the next state, and \<open>rd\<close> is the number \<open>std::random_device\<close> delivers when no seed is
  given. The upper bound is \<open>size() - 1\<close> converted to \<open>int\<close>; the drawn \<open>int\<close> becomes
  a \<open>size_t\<close>; \<open>Vertices[idx]\<close> is not checked, so an index out of range is a crash.
\<close>

fun sample_indices :: "(int \<Rightarrow> int \<Rightarrow> 'g \<Rightarrow> int \<times> 'g) \<Rightarrow> int \<Rightarrow> int \<Rightarrow> nat \<Rightarrow> 'g \<Rightarrow> 64 word list" where
  "sample_indices distrib a b 0 gen = []"
| "sample_indices distrib a b (Suc n) gen =
     (case distrib a b gen of (i, gen') \<Rightarrow> of_int i # sample_indices distrib a b n gen')"

definition SampledVertexIndices ::
  "(32 word \<Rightarrow> 'g) \<Rightarrow> (int \<Rightarrow> int \<Rightarrow> 'g \<Rightarrow> int \<times> 'g) \<Rightarrow> 32 word
   \<Rightarrow> 'f BaseMeshGeometryData \<Rightarrow> nat \<Rightarrow> 32 word option \<Rightarrow> 64 word list" where
  "SampledVertexIndices mt19937 distrib rd meshData nVerts seed =
     (let gen = (case seed of Some s \<Rightarrow> mt19937 s | None \<Rightarrow> mt19937 rd)
      in sample_indices distrib 0 (sint (of_nat (length (Vertices meshData)) - 1 :: 32 word)) nVerts gen)"

fun sampled_lines :: "('f \<Rightarrow> string) \<Rightarrow> 'f vec3 list \<Rightarrow> 64 word list \<Rightarrow> string option" where
  "sampled_lines fmt vs [] = Some []"
| "sampled_lines fmt vs (idx # rest) =
     (if unat idx < length vs
      then (case sampled_lines fmt vs rest of
              None \<Rightarrow> None
            | Some text \<Rightarrow> Some (show_vec3 fmt (vs ! unat idx) @ text))
      else None)"

definition ExportSampledVerticesToPLY ::
  "(32 word \<Rightarrow> 'g) \<Rightarrow> (int \<Rightarrow> int \<Rightarrow> 'g \<Rightarrow> int \<times> 'g) \<Rightarrow> 32 word \<Rightarrow> ('f \<Rightarrow> string)
   \<Rightarrow> (string \<Rightarrow> bool) \<Rightarrow> 'f BaseMeshGeometryData \<Rightarrow> nat \<Rightarrow> string \<Rightarrow> 32 word option
   \<Rightarrow> bool outcome \<times> io_event list \<times> (string \<times> string) list" where
  "ExportSampledVerticesToPLY mt19937 distrib rd fmt writable meshData nVerts absFileName seed =
     (if ExtractLowercaseFileExtensionFromPath absFileName \<noteq> ''ply'' then (Returned False, [], [])
      else if \<not> writable absFileName then (Returned False, [ofstream_open absFileName], [])
      else let indices = SampledVertexIndices mt19937 distrib rd meshData nVerts seed
           in if \<not> writable absFileName
              then (Returned False, [ofstream_open absFileName, ofstream_open absFileName], [])
              else (case sampled_lines fmt (Vertices meshData) indices of
                      None \<Rightarrow> (Crashed OutOfBounds,
                                [ofstream_open absFileName, ofstream_open absFileName], [])
                    | Some text \<Rightarrow> (Returned True,
                                [ofstream_open absFileName, ofstream_open absFileName],
                                [(absFileName, text_mode (PLY_header nVerts @ text))])))"

subsection \<open>The convex hull\<close>

text \<open>
  The loop of lines 992 to 999 over the index buffer of the hull, three entries at a
  time; \<open>None\<close> is a read past the end of the buffer.
\<close>

function hull_triangles :: "nat list \<Rightarrow> nat \<Rightarrow> 32 word list list option" where
  "hull_triangles hullVertIdBuffer i =
     (if i < length hullVertIdBuffer
      then (if i + 2 < length hullVertIdBuffer
            then map_option
                   (\<lambda>rest. [of_nat (hullVertIdBuffer ! i), of_nat (hullVertIdBuffer ! (i + 1)),
                             of_nat (hullVertIdBuffer ! (i + 2))] # rest)
                   (hull_triangles hullVertIdBuffer (i + 3))
            else None)
      else Some [])"
  by pat_completeness auto
termination
  by (relation "measure (\<lambda>(b, i). length b - i)") auto

declare hull_triangles.simps [simp del]

text \<open>
  \<open>ComputeConvexHullFromPoints\<close> (lines 959 to 1001). \<open>getConvexHull\<close> is the QuickHull
  library: it gives the vertex buffer and the index buffer of the hull. The loop counter
  is an \<open>unsigned int\<close> compared with a \<open>size_t\<close>: on an index buffer of \<open>2^32\<close> entries or
  more it never reaches the size.
\<close>

definition ComputeConvexHullFromPoints ::
  "('f vec3 list \<Rightarrow> 'f vec3 list \<times> nat list) \<Rightarrow> 'f vec3 list \<Rightarrow> 'f BaseMeshGeometryData option outcome" where
  "ComputeConvexHullFromPoints getConvexHull points =
     (if length points < 4 then Returned None
      else case getConvexHull points of
        (hullVertBuffer, hullVertIdBuffer) \<Rightarrow>
          if length hullVertBuffer < 4 then Returned None
          else if length hullVertIdBuffer mod 3 \<noteq> 0 then Returned None
          else if 2 ^ 32 \<le> int (length hullVertIdBuffer) then Crashed NonTermination
          else (case hull_triangles hullVertIdBuffer 0 of
                  None \<Rightarrow> Crashed OutOfBounds
                | Some polys \<Rightarrow>
                    Returned (Some \<lparr>Vertices = hullVertBuffer, PolyIndices = polys,
                                    VertexNormals = []\<rparr>)))"

subsection \<open>Distance statistics\<close>

text \<open>
  In the statistics \<open>pmp::Scalar\<close> is a real number, and a division by zero gives no
  number (\<open>None\<close>, the float is infinite or NaN). The statements below are about the
  guards, the error reports and the bounds of the vectors, not about rounding.
  \<open>knnSearch pts q k\<close> is the nanoflann query on the index built from \<open>pts\<close>: the squared
  distances it found, which is \<open>out_dist_sqr\<close> after the \<open>resize\<close> to \<open>num_results\<close>.
\<close>

type_synonym point = "real vec3"

type_synonym knn = "point list \<Rightarrow> point \<Rightarrow> nat \<Rightarrow> real list"

definition FLT_MAX :: real where
  "FLT_MAX = (2 ^ 24 - 1) * 2 ^ 104"

text \<open>The closure \<open>do_knn_search\<close> of lines 1202 to 1213: it reads \<open>out_dist_sqr[1]\<close>.\<close>

definition do_knn_search_min :: "knn \<Rightarrow> point list \<Rightarrow> point \<Rightarrow> real outcome" where
  "do_knn_search_min knnSearch points p =
     (let out_dist_sqr = knnSearch points p 2
      in if 1 < length out_dist_sqr then Returned (out_dist_sqr ! 1) else Crashed OutOfBounds)"

fun min_distance_loop :: "knn \<Rightarrow> point list \<Rightarrow> point list \<Rightarrow> real \<Rightarrow> real outcome" where
  "min_distance_loop knnSearch points [] minDistance = Returned minDistance"
| "min_distance_loop knnSearch points (p # rest) minDistance =
     (case do_knn_search_min knnSearch points p of
        Returned currDistSq \<Rightarrow>
          min_distance_loop knnSearch points rest
            (if currDistSq < minDistance then currDistSq else minDistance)
      | Thrown e \<Rightarrow> Thrown e
      | Crashed f \<Rightarrow> Crashed f)"

text \<open>\<open>ComputeMinInterVertexDistance\<close> (lines 1182 to 1222): the value and what it wrote
  to \<open>std::cerr\<close>.\<close>

definition ComputeMinInterVertexDistance :: "knn \<Rightarrow> point list \<Rightarrow> real outcome \<times> string list" where
  "ComputeMinInterVertexDistance knnSearch points =
     (if points = []
      then (Returned (- 1), [''Geometry::ComputeMinInterVertexDistance: points.empty()!''])
      else (case min_distance_loop knnSearch points points FLT_MAX of
              Returned minDistance \<Rightarrow> (Returned (sqrt minDistance), [])
            | Thrown e \<Rightarrow> (Thrown e, [])
            | Crashed f \<Rightarrow> (Crashed f, [])))"

text \<open>
  The closure of lines 1244 to 1258. \<open>&ret_index[0]\<close> on a vector of size 0 is a read out
  of bounds; the division is by \<open>num_results - 1\<close>.
\<close>

definition do_knn_search_mean :: "knn \<Rightarrow> nat \<Rightarrow> point list \<Rightarrow> point \<Rightarrow> real option outcome" where
  "do_knn_search_mean knnSearch nNeighbors points p =
     (if nNeighbors = 0 then Crashed OutOfBounds
      else let out_dist_sqr = knnSearch points p nNeighbors;
               num_results = length out_dist_sqr
           in if num_results = 0 then Returned (Some 0)
              else if num_results = 1 then Returned None
              else Returned (Some (sqrt (sum_list out_dist_sqr / (real num_results - 1)))))"

fun mean_distance_loop :: "knn \<Rightarrow> nat \<Rightarrow> point list \<Rightarrow> point list \<Rightarrow> real option \<Rightarrow> real option outcome" where
  "mean_distance_loop knnSearch nNeighbors points [] totalDistance = Returned totalDistance"
| "mean_distance_loop knnSearch nNeighbors points (p # rest) totalDistance =
     (case do_knn_search_mean knnSearch nNeighbors points p of
        Returned d \<Rightarrow>
          mean_distance_loop knnSearch nNeighbors points rest
            (case (totalDistance, d) of (Some t, Some x) \<Rightarrow> Some (t + x) | _ \<Rightarrow> None)
      | Thrown e \<Rightarrow> Thrown e
      | Crashed f \<Rightarrow> Crashed f)"

text \<open>\<open>ComputeNearestNeighborMeanInterVertexDistance\<close> (lines 1224 to 1267).\<close>

definition ComputeNearestNeighborMeanInterVertexDistance ::
  "knn \<Rightarrow> point list \<Rightarrow> nat \<Rightarrow> real option outcome \<times> string list" where
  "ComputeNearestNeighborMeanInterVertexDistance knnSearch points nNeighbors =
     (if points = []
      then (Returned (Some (- 1)),
            [''Geometry::ComputeNearestNeighborMeanInterVertexDistance: points.empty()!''])
      else (case mean_distance_loop knnSearch nNeighbors points points (Some 0) of
              Returned totalDistance \<Rightarrow>
                (Returned (map_option (\<lambda>t. t / real (length points)) totalDistance), [])
            | Thrown e \<Rightarrow> (Thrown e, [])
            | Crashed f \<Rightarrow> (Crashed f, [])))"

text \<open>
  What nanoflann promises of a query for \<open>k\<close> neighbours on an index of \<open>n\<close> points:
  \<open>min k n\<close> results. A brute-force query with that behaviour: the \<open>k\<close> smallest squared
  distances, in ascending order.
\<close>

definition knn_returns_min :: "knn \<Rightarrow> bool" where
  "knn_returns_min knnSearch \<longleftrightarrow> (\<forall>pts q k. length (knnSearch pts q k) = min k (length pts))"

definition dist_sqr :: "point \<Rightarrow> point \<Rightarrow> real" where
  "dist_sqr p q =
     (case (p, q) of ((x1, y1, z1), (x2, y2, z2)) \<Rightarrow> (x1 - x2)\<^sup>2 + (y1 - y2)\<^sup>2 + (z1 - z2)\<^sup>2)"

definition knnSearch_brute_force :: knn where
  "knnSearch_brute_force pts q k = take k (sort (map (dist_sqr q) pts))"

text \<open>An outcome is a typed error when it is an exception the caller can catch.\<close>

fun is_typed_error :: "'a outcome \<Rightarrow> bool" where
  "is_typed_error (Thrown e) = True"
| "is_typed_error _ = False"

subsection \<open>The bounding sphere\<close>

text \<open>
  Here a \<open>pmp::Point\<close> is a vector of a real normed vector space, \<open>pmp::norm\<close> is the
  norm of the space and a \<open>pmp::Scalar\<close> is a real number, so the arithmetic is exact.
  \<open>pmp::normalize\<close> belongs to the PMP library and is a parameter, \<open>normalize_vec\<close>.
\<close>





subsection \<open>The bytes of an exported OBJ file, line by line\<close>

text \<open>
  \<open>scans_back t\<close>: the text \<open>t\<close> has no leading white space and no newline, and \<open>strtof\<close>
  reads it whole when a space or a carriage return follows. The stream prints such a
  text for a \<open>float\<close>, also for an infinite one. \<open>reread val fmt\<close> prints each coordinate
  and scans the text back; \<open>vec3_within tol\<close> compares two vectors coordinate by
  coordinate. The lines are those of \<open>ExportBaseMeshGeometryDataToOBJ\<close> as they are in the
  file, with a carriage return before the newline.
\<close>

definition scans_back :: "string \<Rightarrow> bool" where
  "scans_back t \<longleftrightarrow>
     t \<noteq> [] \<and> \<not> isspace (hd t) \<and> NL \<notin> set t \<and>
     (\<forall>c rest. c = SP \<or> c = CR \<longrightarrow> scan_float (t @ c # rest) = length t)"

definition reread :: "(string \<Rightarrow> 'f) \<Rightarrow> ('f \<Rightarrow> string) \<Rightarrow> 'f vec3 \<Rightarrow> 'f vec3" where
  "reread val fmt v = (case v of (x, y, z) \<Rightarrow> (val (fmt x), val (fmt y), val (fmt z)))"

definition vec3_all :: "('f \<Rightarrow> bool) \<Rightarrow> 'f vec3 \<Rightarrow> bool" where
  "vec3_all P v = (case v of (x, y, z) \<Rightarrow> P x \<and> P y \<and> P z)"

definition vec3_within :: "real \<Rightarrow> real vec3 \<Rightarrow> real vec3 \<Rightarrow> bool" where
  "vec3_within tol v w =
     (case (v, w) of ((x, y, z), (x', y', z')) \<Rightarrow>
        \<bar>x' - x\<bar> \<le> tol \<and> \<bar>y' - y\<bar> \<le> tol \<and> \<bar>z' - z\<bar> \<le> tol)"

definition index_text :: "32 word \<Rightarrow> string" where
  "index_text index = show_dec (unat (index + 1))"

definition vertex_line :: "('f \<Rightarrow> string) \<Rightarrow> 'f vec3 \<Rightarrow> string" where
  "vertex_line fmt v = (case v of (x, y, z) \<Rightarrow> ''v '' @ fmt x @ SP # fmt y @ SP # fmt z @ [CR, NL])"

definition normal_line :: "('f \<Rightarrow> string) \<Rightarrow> 'f vec3 \<Rightarrow> string" where
  "normal_line fmt v = (case v of (x, y, z) \<Rightarrow> ''vn '' @ fmt x @ SP # fmt y @ SP # fmt z @ [CR, NL])"

definition face_line :: "32 word list \<Rightarrow> string" where
  "face_line indices = ''f'' @ concat (map (\<lambda>index. SP # index_text index) indices) @ [CR, NL]"

section \<open>Inputs used below\<close>

definition empty_polygon_mesh :: "string BaseMeshGeometryData" where
  "empty_polygon_mesh = \<lparr>Vertices = [(''0'', ''0'', ''0'')], PolyIndices = [[]], VertexNormals = []\<rparr>"

definition real_triangle :: "real BaseMeshGeometryData" where
  "real_triangle = \<lparr>Vertices = [(0, 0, 0), (1, 0, 0), (0, 1, 0)],
                    PolyIndices = [[0, 1, 2]], VertexNormals = [(0, 0, 1)]\<rparr>"

text \<open>A printer and a scanner for coordinates that are natural numbers.\<close>

definition print_natural :: "real \<Rightarrow> string" where
  "print_natural x = show_dec (nat \<lfloor>x\<rfloor>)"

definition scan_natural :: "string \<Rightarrow> real" where
  "scan_natural t = real (dec_value t)"

text \<open>Vertices whose line in the OBJ file has 16 bytes.\<close>

definition page_of_vertices :: "nat \<Rightarrow> string BaseMeshGeometryData" where
  "page_of_vertices n = \<lparr>Vertices = replicate n (''1000'', ''100'', ''100''),
                          PolyIndices = [], VertexNormals = []\<rparr>"

definition no_count_ply :: string where
  "no_count_ply = ''ply'' @ [NL] @ ''end_header'' @ [NL] @ ''1 2 3'' @ [NL]"

definition one_triangle :: "string BaseMeshGeometryData" where
  "one_triangle = \<lparr>Vertices = [(''0'', ''0'', ''0''), (''1'', ''0'', ''0''), (''0'', ''1'', ''0'')],
                   PolyIndices = [[0, 1, 2]], VertexNormals = []\<rparr>"

definition tetrahedron :: "string vec3 list" where
  "tetrahedron = [(''0'', ''0'', ''0''), (''1'', ''0'', ''0''), (''0'', ''1'', ''0''), (''0'', ''0'', ''1'')]"

definition tetrahedron_hull :: "string vec3 list \<Rightarrow> string vec3 list \<times> nat list" where
  "tetrahedron_hull points = (points, [0, 2, 1, 0, 1, 3, 0, 3, 2, 1, 2, 3])"

definition no_end_header_ply :: string where
  "no_end_header_ply = ''ply'' @ [NL] @ ''element vertex 1'' @ [NL] @ ''1 2 3'' @ [NL]"

text \<open>Texts a stream prints for a \<open>float\<close>.\<close>

definition printed_floats :: "string list" where
  "printed_floats = [''0'', ''-2.5e-05'', ''1e+10'', ''0.333333'', ''inf'', ''-inf'', ''nan'', ''-nan(ind)'']"

text \<open>A stand-in for the random engine: the state is a counter, a draw is the state
  modulo the size of the range.\<close>

definition counter_draw :: "int \<Rightarrow> int \<Rightarrow> nat \<Rightarrow> int \<times> nat" where
  "counter_draw a b gen = (a + int gen mod (b - a + 1), Suc gen)"

section \<open>The claims\<close>

subsection \<open>C1: the parallel and the single-threaded OBJ import\<close>

text \<open>
  Claim C1 says that \<open>ImportOBJMeshGeometryData\<close> returns the same mesh with
  \<open>importInParallel\<close> false and true, on every valid OBJ file. The code does not: a chunk
  ends after the newline that follows its nominal end, but the next chunk starts at the
  nominal end itself, so a line that begins exactly there is parsed by both threads. On
  the file of two vertex lines of eight bytes each, with two hardware threads, the
  single-threaded import returns two vertices and the parallel import three, the second
  vertex twice.
\<close>

theorem C1_parallel_import_duplicates_vertex:
  "fst (ImportOBJMeshGeometryData (\<lambda>s. s) 2 [''m.obj'' \<mapsto> two_vertices_obj] ''m.obj'' False)
     = Returned (Some \<lparr>Vertices = [(''1'', ''2'', ''3''), (''4'', ''5'', ''6'')],
                       PolyIndices = [], VertexNormals = []\<rparr>)
   \<and> fst (ImportOBJMeshGeometryData (\<lambda>s. s) 2 [''m.obj'' \<mapsto> two_vertices_obj] ''m.obj'' True)
     = Returned (Some \<lparr>Vertices = [(''1'', ''2'', ''3''), (''4'', ''5'', ''6''), (''4'', ''5'', ''6'')],
                       PolyIndices = [], VertexNormals = []\<rparr>)"
  by code_simp

subsection \<open>C2: the chunk ranges\<close>

text \<open>
  Claim C2 says that the chunk ranges of one import are contiguous, do not overlap and
  cover the file exactly. The ranges of the OBJ importer overlap: on the 16 bytes of the
  two vertex lines and two threads, thread 0 gets \<open>[0, 16)\<close> and thread 1 gets
  \<open>[8, 16)\<close>.
\<close>

theorem C2_OBJ_chunks_overlap:
  "length two_vertices_obj = 16 \<and> OBJ_chunks two_vertices_obj 16 2 = [(0, 16), (8, 16)]"
  by code_simp

text \<open>
  The PLY importer realigns the start of every chunk but the first. With more threads
  than bytes its chunk size is raised to 1 and the ranges leave the file: on two bytes
  and four threads the third range is \<open>[2, 3)\<close>.
\<close>

lemma PLY_chunks_past_end: "PLY_chunks ''ab'' 2 0 4 = [(0, 2), (2, 2), (2, 3), (3, 2)]"
  by code_simp

text \<open>
  The ranges of the PLY importer meet: a chunk ends where the next one starts, the first
  starts at the vertex data and the last ends with the file, and a boundary that is
  not the end of the file follows a newline.
\<close>

lemma skip_to_newline_0: "skip_to_newline s 0 = 0"
  by (cases s) simp_all

lemma skip_to_newline_le: "skip_to_newline s avail \<le> avail"
proof (induction s arbitrary: avail)
  case Nil
  show ?case by simp
next
  case (Cons c cs)
  from Cons.IH [of "avail - 1"] show ?case by auto
qed

lemma skip_to_newline_stops:
  "skip_to_newline s avail < avail \<Longrightarrow>
     skip_to_newline s avail < length s \<and> s ! skip_to_newline s avail = NL"
proof (induction s arbitrary: avail)
  case Nil
  then show ?case by simp
next
  case (Cons c cs)
  show ?case
  proof (cases "c \<noteq> NL \<and> 0 < avail")
    case True
    with Cons.prems have "skip_to_newline cs (avail - 1) < avail - 1" by simp
    from Cons.IH [OF this] True show ?thesis by simp
  next
    case False
    with Cons.prems show ?thesis by auto
  qed
qed

lemma PLY_adjust_end: "PLY_adjust file file_size file_size = file_size"
  by (simp add: PLY_adjust_def skip_to_newline_0)

lemma PLY_adjust_bounds:
  assumes "p \<le> file_size"
  shows "p \<le> PLY_adjust file file_size p" and "PLY_adjust file file_size p \<le> file_size"
  using assms skip_to_newline_le [of "drop p file" "file_size - p"]
  by (auto simp: PLY_adjust_def Let_def)

lemma PLY_adjust_after_newline:
  assumes "p \<le> file_size" and "PLY_adjust file file_size p \<noteq> file_size"
  shows "0 < PLY_adjust file file_size p \<and> file ! (PLY_adjust file file_size p - 1) = NL"
proof -
  define k where "k = skip_to_newline (drop p file) (file_size - p)"
  have le: "k \<le> file_size - p"
    unfolding k_def by (rule skip_to_newline_le)
  show ?thesis
  proof (cases "p + k < file_size")
    case True
    then have "k < file_size - p" by simp
    then have "k < length (drop p file) \<and> drop p file ! k = NL"
      unfolding k_def by (rule skip_to_newline_stops)
    then have "k < length file - p" and nl: "drop p file ! k = NL" by simp_all
    then have "p \<le> length file" by linarith
    with nl have "file ! (p + k) = NL" by (simp only: nth_drop)
    with True show ?thesis
      by (simp add: PLY_adjust_def Let_def flip: k_def)
  next
    case False
    with le assms(1) have "p + k = file_size" by simp
    with assms(2) show ?thesis
      by (simp add: PLY_adjust_def Let_def flip: k_def)
  qed
qed

lemma PLY_chunks_contiguous:
  assumes "Suc i < thread_count"
  shows "snd (PLY_chunk file file_size file_start thread_count i)
         = fst (PLY_chunk file file_size file_start thread_count (Suc i))"
proof -
  from assms have "i \<noteq> thread_count - 1" by simp
  then show ?thesis
    by (simp add: PLY_chunk_def Let_def algebra_simps)
qed

lemma PLY_chunks_first_and_last:
  assumes "0 < thread_count"
  shows "fst (PLY_chunk file file_size file_start thread_count 0) = file_start"
    and "snd (PLY_chunk file file_size file_start thread_count (thread_count - 1)) = file_size"
  using assms by (simp_all add: PLY_chunk_def Let_def PLY_adjust_end)

subsection \<open>C3: export to OBJ, then import\<close>

text \<open>Decimal digits are read back as the number they print.\<close>

lemma isdigit_char_of: "(d::nat) < 10 \<Longrightarrow> isdigit (char_of (48 + d))"
  by (simp add: isdigit_def)

lemma digit_of_char_of: "(d::nat) < 10 \<Longrightarrow> digit_of (char_of (48 + d)) = d"
  by (simp add: digit_of_def)

lemma show_dec_nonempty: "show_dec n \<noteq> []"
  by (subst show_dec.simps) simp

lemma show_dec_digits: "c \<in> set (show_dec n) \<Longrightarrow> isdigit c"
proof (induction n arbitrary: c rule: show_dec.induct)
  case (1 n)
  show ?case
  proof (cases "n < 10")
    case True
    with "1.prems" show ?thesis
      by (subst (asm) show_dec.simps) (simp add: isdigit_char_of)
  next
    case False
    with "1.prems" have "c \<in> set (show_dec (n div 10)) \<or> c = char_of (48 + n mod 10)"
      by (subst (asm) show_dec.simps) auto
    with "1.IH" [OF False] show ?thesis
      by (auto simp: isdigit_char_of)
  qed
qed

lemma dec_value_snoc: "dec_value (ds @ [c]) = 10 * dec_value ds + digit_of c"
  by (simp add: dec_value_def)

lemma dec_value_show_dec: "dec_value (show_dec n) = n"
proof (induction n rule: show_dec.induct)
  case (1 n)
  show ?case
  proof (cases "n < 10")
    case True
    then show ?thesis
      by (subst show_dec.simps) (simp add: dec_value_def digit_of_char_of)
  next
    case False
    with "1.IH" show ?thesis
      by (subst show_dec.simps) (simp add: dec_value_snoc digit_of_char_of)
  qed
qed

lemma takeWhile_digits:
  "\<forall>c \<in> set ds. isdigit c \<Longrightarrow> \<not> isdigit c' \<Longrightarrow> takeWhile isdigit (ds @ c' # rest) = ds"
  by (simp add: takeWhile_append2)

lemma isdigit_not_space: "isdigit c \<Longrightarrow> \<not> isspace c"
  by (auto simp: isdigit_def isspace_def)

lemma isdigit_not_sign: "isdigit c \<Longrightarrow> \<not> is_sign c"
  by (auto simp: isdigit_def is_sign_def)

lemma isdigit_not_minus: "isdigit c \<Longrightarrow> c \<noteq> CHR ''-''"
  by (auto simp: isdigit_def)

lemma strtoul_show_dec:
  assumes "int n < 2 ^ 32" and "\<not> isdigit c"
  shows "strtoul (show_dec n @ c # rest) = (of_nat n, length (show_dec n))"
proof -
  obtain d ds where ds: "show_dec n = d # ds"
    using show_dec_nonempty [of n] by (cases "show_dec n") auto
  have dig: "\<forall>c \<in> set (show_dec n). isdigit c"
    using show_dec_digits by blast
  then have d: "isdigit d" by (simp add: ds)
  have ws: "takeWhile isspace (show_dec n @ c # rest) = []"
    using d by (simp add: ds isdigit_not_space)
  have sg: "sign_len (show_dec n @ c # rest) = 0"
    using d by (simp add: ds sign_len_def isdigit_not_sign)
  have tw: "takeWhile isdigit (show_dec n @ c # rest) = show_dec n"
    using dig assms(2) by (rule takeWhile_digits)
  have pk: "peek (show_dec n @ c # rest) \<noteq> CHR ''-''"
    using d by (simp add: ds isdigit_not_minus)
  from assms(1) have big: "\<not> (2 ^ 32 \<le> int n)" by simp
  show ?thesis
    unfolding strtoul_def Let_def ws
    apply (simp only: list.size drop_0 sg tw pk dec_value_show_dec show_dec_nonempty big if_False
        add_0 of_int_of_nat_eq)
    done
qed


text \<open>The bytes that text mode writes.\<close>

lemma text_mode_append: "text_mode (a @ b) = text_mode a @ text_mode b"
  by (simp add: text_mode_def)

lemma text_mode_concat: "text_mode (concat xs) = concat (map text_mode xs)"
  by (induction xs) (simp_all add: text_mode_append, simp add: text_mode_def)

lemma text_mode_no_newline: "NL \<notin> set t \<Longrightarrow> text_mode t = t"
  by (induction t) (auto simp: text_mode_def)

lemma text_mode_newline: "text_mode [NL] = [CR, NL]"
  by (simp add: text_mode_def)

lemma show_dec_no_newline: "NL \<notin> set (show_dec n)"
  using show_dec_digits [of NL n] by (auto simp: isdigit_def)

lemma text_mode_show_vec3:
  assumes "vec3_all (\<lambda>x. scans_back (fmt x)) v"
  shows "text_mode (''v '' @ show_vec3 fmt v) = vertex_line fmt v"
    and "text_mode (''vn '' @ show_vec3 fmt v) = normal_line fmt v"
proof -
  obtain x y z where v: "v = (x, y, z)" by (cases v) auto
  from assms have "NL \<notin> set (fmt x)" "NL \<notin> set (fmt y)" "NL \<notin> set (fmt z)"
    by (simp_all add: v vec3_all_def scans_back_def)
  then have t: "text_mode (fmt x) = fmt x" "text_mode (fmt y) = fmt y" "text_mode (fmt z) = fmt z"
    by (simp_all add: text_mode_no_newline)
  have sp: "text_mode [SP] = [SP]" "text_mode ''v '' = ''v ''" "text_mode ''vn '' = ''vn ''"
    by (simp_all add: text_mode_def)
  show "text_mode (''v '' @ show_vec3 fmt v) = vertex_line fmt v"
    by (simp only: v show_vec3_def vertex_line_def prod.case text_mode_append t sp text_mode_newline)
      simp
  show "text_mode (''vn '' @ show_vec3 fmt v) = normal_line fmt v"
    by (simp only: v show_vec3_def normal_line_def prod.case text_mode_append t sp text_mode_newline)
      simp
qed

lemma text_mode_face:
  "text_mode (''f'' @ concat (map (\<lambda>index. SP # show_dec (unat (index + 1))) indices) @ [NL])
   = face_line indices"
proof -
  have "NL \<notin> set (concat (map (\<lambda>index. SP # show_dec (unat (index + 1))) indices))"
    using show_dec_no_newline by auto
  then have "text_mode (concat (map (\<lambda>index. SP # show_dec (unat (index + 1))) indices))
      = concat (map (\<lambda>index. SP # index_text index) indices)"
    by (simp add: text_mode_no_newline index_text_def)
  moreover have "text_mode ''f'' = ''f''" by (simp add: text_mode_def)
  ultimately show ?thesis
    by (simp only: text_mode_append text_mode_newline face_line_def)
qed

lemma text_mode_OBJ_text:
  assumes "\<forall>v \<in> set (Vertices geomData @ VertexNormals geomData). vec3_all (\<lambda>x. scans_back (fmt x)) v"
  shows "text_mode (OBJ_text fmt geomData) =
     concat (map (vertex_line fmt) (Vertices geomData)) @
     concat (map (normal_line fmt) (VertexNormals geomData)) @
     concat (map face_line (PolyIndices geomData))"
proof -
  have v: "map (text_mode \<circ> (\<lambda>vertex. ''v '' @ show_vec3 fmt vertex)) (Vertices geomData)
      = map (vertex_line fmt) (Vertices geomData)"
  proof (rule map_cong [OF refl])
    fix v assume "v \<in> set (Vertices geomData)"
    with assms have "vec3_all (\<lambda>x. scans_back (fmt x)) v" by simp
    then show "(text_mode \<circ> (\<lambda>vertex. ''v '' @ show_vec3 fmt vertex)) v = vertex_line fmt v"
      unfolding comp_apply by (rule text_mode_show_vec3)
  qed
  have n: "map (text_mode \<circ> (\<lambda>normal. ''vn '' @ show_vec3 fmt normal)) (VertexNormals geomData)
      = map (normal_line fmt) (VertexNormals geomData)"
  proof (rule map_cong [OF refl])
    fix v assume "v \<in> set (VertexNormals geomData)"
    with assms have "vec3_all (\<lambda>x. scans_back (fmt x)) v" by simp
    then show "(text_mode \<circ> (\<lambda>normal. ''vn '' @ show_vec3 fmt normal)) v = normal_line fmt v"
      unfolding comp_apply by (rule text_mode_show_vec3)
  qed
  have f: "map (text_mode \<circ> (\<lambda>indices. ''f'' @ concat (map (\<lambda>index. SP # show_dec (unat (index + 1))) indices) @ [NL]))
             (PolyIndices geomData)
      = map face_line (PolyIndices geomData)"
    by (intro map_cong refl) (simp only: comp_apply text_mode_face)
  show ?thesis
    by (simp only: OBJ_text_def text_mode_append text_mode_concat map_map v n f)
qed

text \<open>The scanners on printed coordinates and printed indices.\<close>

lemma strtof_scans_back:
  assumes "scans_back t" and "c = SP \<or> c = CR"
  shows "strtof val (t @ c # rest) = (val t, length t)"
proof -
  from assms have n: "scan_float (t @ c # rest) = length t" and ne: "t \<noteq> []"
    and sp: "\<not> isspace (hd t)"
    unfolding scans_back_def by blast+
  from ne sp have ws: "takeWhile isspace (t @ c # rest) = []" by (cases t) auto
  show ?thesis
    unfolding strtof_def Let_def ws
    using ne by (simp add: n)
qed

lemma strtof_space_scans_back:
  assumes "scans_back t" and "c = SP \<or> c = CR"
  shows "strtof val (SP # t @ c # rest) = (val t, Suc (length t))"
proof -
  from assms have n: "scan_float (t @ c # rest) = length t" and ne: "t \<noteq> []"
    and sp: "\<not> isspace (hd t)"
    unfolding scans_back_def by blast+
  from ne sp have "takeWhile isspace (t @ c # rest) = []" by (cases t) auto
  then have ws: "takeWhile isspace (SP # t @ c # rest) = [SP]"
    by (simp add: isspace_def)
  show ?thesis
    unfolding strtof_def Let_def ws
    using ne by (simp add: n)
qed

lemma index_text_nonempty: "index_text i \<noteq> []"
  by (simp add: index_text_def show_dec_nonempty)

lemma peek_index_text: "isdigit (peek (index_text i @ rest))"
proof -
  obtain d ds where "index_text i = d # ds"
    using index_text_nonempty [of i] by (cases "index_text i") auto
  moreover from this have "isdigit d"
    using show_dec_digits [of d "unat (i + 1)"] by (simp add: index_text_def)
  ultimately show ?thesis by simp
qed

lemma strtoul_index_text:
  assumes "\<not> isdigit c"
  shows "strtoul (index_text i @ c # rest) = (i + 1, length (index_text i))"
proof -
  have "int (unat (i + 1)) < 2 ^ 32"
    using uint_bounded [of "i + 1"] by simp
  from strtoul_show_dec [OF this assms] show ?thesis
    by (simp add: index_text_def)
qed

lemma isdigit_simps [simp]:
  "\<not> isdigit NL" "\<not> isdigit SP" "\<not> isdigit CR" "\<not> isdigit (CHR ''/'')"
  by (simp_all add: isdigit_def)

lemma face_advance_cr: "face_advance (CR # NL # rest) (Suc avail) = 1"
  by (simp add: face_advance_def skip_slashes_def)

lemma face_advance_space: "face_advance (SP # rest) avail = 1"
  by (simp add: face_advance_def skip_slashes_def)

lemma parse_face_newline: "parse_face (NL # rest) avail acc = (0, acc)"
  by (subst parse_face.simps) simp

lemma parse_face_step:
  assumes "\<not> isdigit c" and "i + 1 \<noteq> 0" and "0 < avail"
  shows "parse_face (index_text i @ c # rest) avail acc =
           (let k = length (index_text i) + face_advance (c # rest) (avail - length (index_text i));
                r = parse_face (drop k (index_text i @ c # rest)) (avail - k) (acc @ [i])
            in (k + fst r, snd r))"
proof -
  have pk: "peek (index_text i @ c # rest) \<noteq> NL"
    using peek_index_text [of i "c # rest"] by auto
  show ?thesis
    apply (subst parse_face.simps)
    apply (simp only: strtoul_index_text [OF assms(1)] fst_conv snd_conv pk assms(3))
    apply (simp add: index_text_nonempty assms(2) Let_def)
    done
qed

lemma parse_face_printed:
  assumes "\<forall>j \<in> set (i # is). j + 1 \<noteq> 0"
    and "length (index_text i @ concat (map (\<lambda>j. SP # index_text j) is)) < avail"
  shows "parse_face (index_text i @ concat (map (\<lambda>j. SP # index_text j) is) @ CR # NL # rest) avail acc
         = (Suc (length (index_text i @ concat (map (\<lambda>j. SP # index_text j) is))), acc @ i # is)"
  using assms
proof (induction "is" arbitrary: i avail acc)
  case Nil
  then have a: "0 < avail" by simp
  from Nil obtain m where m: "avail - length (index_text i) = Suc m"
    by (cases "avail - length (index_text i)") auto
  from Nil show ?case
    by (simp add: parse_face_step [OF _ _ a] m face_advance_cr parse_face_newline)
next
  case (Cons j js)
  then have a: "0 < avail" by simp
  from Cons.prems have nz: "i + 1 \<noteq> 0" and nzs: "\<forall>j \<in> set (j # js). j + 1 \<noteq> 0" by auto
  from Cons.prems(2)
  have len: "length (index_text j @ concat (map (\<lambda>j. SP # index_text j) js))
      < avail - Suc (length (index_text i))"
    by simp
  note ih = Cons.IH [OF nzs len, of "acc @ [i]"]
  have "parse_face (index_text i @ SP # (index_text j @ concat (map (\<lambda>j. SP # index_text j) js) @ CR # NL # rest)) avail acc
      = (length (index_text i) + 1 + Suc (length (index_text j @ concat (map (\<lambda>j. SP # index_text j) js))),
         (acc @ [i]) @ j # js)"
    by (simp add: parse_face_step [OF _ nz a] face_advance_space ih Let_def)
  then show ?case by simp
qed

text \<open>\<open>ParseChunk\<close> on the lines of an exported file.\<close>

lemma ParseChunk_newline:
  "ParseChunk val (NL # rest) (Suc avail) data = ParseChunk val rest avail data"
  by (subst ParseChunk.simps) (simp add: parse_record_def)

lemma ParseChunk_cr_newline:
  "ParseChunk val (CR # NL # rest) (Suc (Suc avail)) data = ParseChunk val rest avail data"
proof -
  have "parse_record val (CR # NL # rest) (Suc (Suc avail)) data = (1, data)"
    by (simp add: parse_record_def)
  then show ?thesis
    by (subst ParseChunk.simps) (simp add: ParseChunk_newline)
qed

lemma ParseChunk_nothing: "ParseChunk val s 0 data = data"
  by (subst ParseChunk.simps) simp

lemma parse_record_vertex:
  assumes "scans_back tx" and "scans_back ty" and "scans_back tz"
  shows "parse_record val (''v '' @ tx @ SP # ty @ SP # tz @ CR # NL # rest) avail data
         = (length (''v '' @ tx @ SP # ty @ SP # tz),
            data\<lparr>chunk_Vertices := chunk_Vertices data @ [(val tx, val ty, val tz)]\<rparr>)"
proof -
  have x: "strtof val (tx @ SP # ty @ SP # tz @ CR # NL # rest) = (val tx, length tx)"
    by (rule strtof_scans_back [OF assms(1)]) simp
  have y: "strtof val (SP # ty @ SP # tz @ CR # NL # rest) = (val ty, Suc (length ty))"
    by (rule strtof_space_scans_back [OF assms(2)]) simp
  have z: "strtof val (SP # tz @ CR # NL # rest) = (val tz, Suc (length tz))"
    by (rule strtof_space_scans_back [OF assms(3)]) simp
  show ?thesis
    unfolding parse_record_def
    by (simp add: x y z Let_def)
qed

lemma parse_record_normal:
  assumes "scans_back tx" and "scans_back ty" and "scans_back tz"
  shows "parse_record val (''vn '' @ tx @ SP # ty @ SP # tz @ CR # NL # rest) avail data
         = (length (''vn '' @ tx @ SP # ty @ SP # tz),
            data\<lparr>chunk_VertexNormals := chunk_VertexNormals data @ [(val tx, val ty, val tz)]\<rparr>)"
proof -
  have x: "strtof val (tx @ SP # ty @ SP # tz @ CR # NL # rest) = (val tx, length tx)"
    by (rule strtof_scans_back [OF assms(1)]) simp
  have y: "strtof val (SP # ty @ SP # tz @ CR # NL # rest) = (val ty, Suc (length ty))"
    by (rule strtof_space_scans_back [OF assms(2)]) simp
  have z: "strtof val (SP # tz @ CR # NL # rest) = (val tz, Suc (length tz))"
    by (rule strtof_space_scans_back [OF assms(3)]) simp
  show ?thesis
    unfolding parse_record_def
    by (simp add: x y z Let_def eval_nat_numeral)
qed

lemma parse_record_face:
  assumes "\<forall>j \<in> set (i # is). j + 1 \<noteq> 0"
    and "length (face_line (i # is)) \<le> avail"
  shows "parse_record val (face_line (i # is) @ rest) avail data
         = (length (face_line (i # is)),
            data\<lparr>chunk_PolyIndices := chunk_PolyIndices data @ [i # is]\<rparr>)"
proof -
  define body where "body = index_text i @ concat (map (\<lambda>j. SP # index_text j) is)"
  have fl: "face_line (i # is) = ''f '' @ body @ [CR, NL]"
    by (simp add: face_line_def body_def)
  from assms(2) have len: "length body < avail - 2" and big: "Suc (Suc (Suc (length body))) < avail"
    by (simp_all add: fl)
  have pf: "parse_face (body @ CR # NL # rest) (avail - 2) [] = (Suc (length body), i # is)"
    using parse_face_printed [OF assms(1), of "avail - 2" rest "[]"] len
    by (simp add: body_def)
  show ?thesis
    unfolding fl parse_record_def
    using big by (simp add: pf Let_def)
qed

lemma ParseChunk_vertex_line:
  assumes "vec3_all (\<lambda>x. scans_back (fmt x)) v"
  shows "ParseChunk val (vertex_line fmt v @ rest) (length (vertex_line fmt v) + length rest) data
         = ParseChunk val rest (length rest)
             (data\<lparr>chunk_Vertices := chunk_Vertices data @ [reread val fmt v]\<rparr>)"
proof -
  obtain x y z where v: "v = (x, y, z)" by (cases v) auto
  from assms have sb: "scans_back (fmt x)" "scans_back (fmt y)" "scans_back (fmt z)"
    by (simp_all add: v vec3_all_def)
  have s: "vertex_line fmt v @ rest = ''v '' @ fmt x @ SP # fmt y @ SP # fmt z @ CR # NL # rest"
    by (simp add: v vertex_line_def)
  have l: "length (vertex_line fmt v) = Suc (Suc (length (''v '' @ fmt x @ SP # fmt y @ SP # fmt z)))"
    by (simp add: v vertex_line_def)
  show ?thesis
    unfolding s l
    apply (subst ParseChunk.simps)
    apply (simp only: parse_record_vertex [OF sb] Let_def fst_conv snd_conv)
    apply (simp add: ParseChunk_cr_newline v reread_def)
    done
qed

lemma ParseChunk_normal_line:
  assumes "vec3_all (\<lambda>x. scans_back (fmt x)) v"
  shows "ParseChunk val (normal_line fmt v @ rest) (length (normal_line fmt v) + length rest) data
         = ParseChunk val rest (length rest)
             (data\<lparr>chunk_VertexNormals := chunk_VertexNormals data @ [reread val fmt v]\<rparr>)"
proof -
  obtain x y z where v: "v = (x, y, z)" by (cases v) auto
  from assms have sb: "scans_back (fmt x)" "scans_back (fmt y)" "scans_back (fmt z)"
    by (simp_all add: v vec3_all_def)
  have s: "normal_line fmt v @ rest = ''vn '' @ fmt x @ SP # fmt y @ SP # fmt z @ CR # NL # rest"
    by (simp add: v normal_line_def)
  have l: "length (normal_line fmt v) = Suc (Suc (length (''vn '' @ fmt x @ SP # fmt y @ SP # fmt z)))"
    by (simp add: v normal_line_def)
  show ?thesis
    unfolding s l
    apply (subst ParseChunk.simps)
    apply (simp only: parse_record_normal [OF sb] Let_def fst_conv snd_conv)
    apply (simp add: ParseChunk_cr_newline v reread_def)
    done
qed

lemma ParseChunk_face_line:
  assumes "indices \<noteq> []" and "\<forall>j \<in> set indices. j + 1 \<noteq> 0"
  shows "ParseChunk val (face_line indices @ rest) (length (face_line indices) + length rest) data
         = ParseChunk val rest (length rest)
             (data\<lparr>chunk_PolyIndices := chunk_PolyIndices data @ [indices]\<rparr>)"
proof -
  have pos: "0 < length (face_line indices) + length rest"
    by (simp add: face_line_def)
  from assms(1) obtain i "is" where i: "indices = i # is" by (cases indices) auto
  have "parse_record val (face_line (i # is) @ rest) (length (face_line (i # is)) + length rest) data
         = (length (face_line (i # is)),
            data\<lparr>chunk_PolyIndices := chunk_PolyIndices data @ [i # is]\<rparr>)"
    by (rule parse_record_face) (use assms(2) i in simp_all)
  then have pr: "parse_record val (face_line indices @ rest) (length (face_line indices) + length rest) data
         = (length (face_line indices),
            data\<lparr>chunk_PolyIndices := chunk_PolyIndices data @ [indices]\<rparr>)"
    by (simp only: i)
  show ?thesis
    apply (subst ParseChunk.simps)
    apply (simp only: pos if_True pr Let_def fst_conv snd_conv)
    apply simp
    done
qed

lemma ParseChunk_vertices:
  assumes "\<forall>v \<in> set vs. vec3_all (\<lambda>x. scans_back (fmt x)) v"
  shows "ParseChunk val (concat (map (vertex_line fmt) vs) @ rest)
           (length (concat (map (vertex_line fmt) vs)) + length rest) data
         = ParseChunk val rest (length rest)
             (data\<lparr>chunk_Vertices := chunk_Vertices data @ map (reread val fmt) vs\<rparr>)"
  using assms
proof (induction vs arbitrary: data)
  case Nil
  show ?case by simp
next
  case (Cons v vs)
  then have v: "vec3_all (\<lambda>x. scans_back (fmt x)) v"
    and vs: "\<forall>v \<in> set vs. vec3_all (\<lambda>x. scans_back (fmt x)) v"
    by auto
  have "ParseChunk val (vertex_line fmt v @ (concat (map (vertex_line fmt) vs) @ rest))
          (length (vertex_line fmt v) + length (concat (map (vertex_line fmt) vs) @ rest)) data
        = ParseChunk val rest (length rest)
            (data\<lparr>chunk_Vertices := chunk_Vertices data @ map (reread val fmt) (v # vs)\<rparr>)"
    unfolding ParseChunk_vertex_line [OF v]
    using Cons.IH [OF vs] by simp
  then show ?case by (simp add: add.assoc)
qed

lemma ParseChunk_normals:
  assumes "\<forall>v \<in> set vs. vec3_all (\<lambda>x. scans_back (fmt x)) v"
  shows "ParseChunk val (concat (map (normal_line fmt) vs) @ rest)
           (length (concat (map (normal_line fmt) vs)) + length rest) data
         = ParseChunk val rest (length rest)
             (data\<lparr>chunk_VertexNormals := chunk_VertexNormals data @ map (reread val fmt) vs\<rparr>)"
  using assms
proof (induction vs arbitrary: data)
  case Nil
  show ?case by simp
next
  case (Cons v vs)
  then have v: "vec3_all (\<lambda>x. scans_back (fmt x)) v"
    and vs: "\<forall>v \<in> set vs. vec3_all (\<lambda>x. scans_back (fmt x)) v"
    by auto
  have "ParseChunk val (normal_line fmt v @ (concat (map (normal_line fmt) vs) @ rest))
          (length (normal_line fmt v) + length (concat (map (normal_line fmt) vs) @ rest)) data
        = ParseChunk val rest (length rest)
            (data\<lparr>chunk_VertexNormals := chunk_VertexNormals data @ map (reread val fmt) (v # vs)\<rparr>)"
    unfolding ParseChunk_normal_line [OF v]
    using Cons.IH [OF vs] by simp
  then show ?case by (simp add: add.assoc)
qed

lemma ParseChunk_faces:
  assumes "\<forall>indices \<in> set ps. indices \<noteq> [] \<and> (\<forall>j \<in> set indices. j + 1 \<noteq> 0)"
  shows "ParseChunk val (concat (map face_line ps) @ rest)
           (length (concat (map face_line ps)) + length rest) data
         = ParseChunk val rest (length rest)
             (data\<lparr>chunk_PolyIndices := chunk_PolyIndices data @ ps\<rparr>)"
  using assms
proof (induction ps arbitrary: data)
  case Nil
  show ?case by simp
next
  case (Cons p ps)
  then have p: "p \<noteq> []" "\<forall>j \<in> set p. j + 1 \<noteq> 0"
    and ps: "\<forall>indices \<in> set ps. indices \<noteq> [] \<and> (\<forall>j \<in> set indices. j + 1 \<noteq> 0)"
    by auto
  have "ParseChunk val (face_line p @ (concat (map face_line ps) @ rest))
          (length (face_line p) + length (concat (map face_line ps) @ rest)) data
        = ParseChunk val rest (length rest)
            (data\<lparr>chunk_PolyIndices := chunk_PolyIndices data @ p # ps\<rparr>)"
    unfolding ParseChunk_face_line [OF p]
    using Cons.IH [OF ps] by simp
  then show ?case by (simp add: add.assoc)
qed

lemma ParseChunk_OBJ_text:
  assumes "\<forall>v \<in> set (Vertices geomData @ VertexNormals geomData). vec3_all (\<lambda>x. scans_back (fmt x)) v"
    and "\<forall>indices \<in> set (PolyIndices geomData). indices \<noteq> [] \<and> (\<forall>j \<in> set indices. j + 1 \<noteq> 0)"
  shows "ParseChunk val (text_mode (OBJ_text fmt geomData))
           (length (text_mode (OBJ_text fmt geomData))) empty_ChunkData
         = \<lparr>chunk_Vertices = map (reread val fmt) (Vertices geomData),
            chunk_VertexNormals = map (reread val fmt) (VertexNormals geomData),
            chunk_PolyIndices = PolyIndices geomData\<rparr>"
proof -
  let ?V = "concat (map (vertex_line fmt) (Vertices geomData))"
  let ?N = "concat (map (normal_line fmt) (VertexNormals geomData))"
  let ?F = "concat (map face_line (PolyIndices geomData))"
  let ?d1 = "empty_ChunkData\<lparr>chunk_Vertices := chunk_Vertices empty_ChunkData @ map (reread val fmt) (Vertices geomData)\<rparr>"
  let ?d2 = "?d1\<lparr>chunk_VertexNormals := chunk_VertexNormals ?d1 @ map (reread val fmt) (VertexNormals geomData)\<rparr>"
  let ?d3 = "?d2\<lparr>chunk_PolyIndices := chunk_PolyIndices ?d2 @ PolyIndices geomData\<rparr>"
  from assms(1) have vs: "\<forall>v \<in> set (Vertices geomData). vec3_all (\<lambda>x. scans_back (fmt x)) v"
    and ns: "\<forall>v \<in> set (VertexNormals geomData). vec3_all (\<lambda>x. scans_back (fmt x)) v"
    by auto
  have 1: "ParseChunk val (?V @ (?N @ ?F)) (length ?V + length (?N @ ?F)) empty_ChunkData
      = ParseChunk val (?N @ ?F) (length (?N @ ?F)) ?d1"
    by (rule ParseChunk_vertices [OF vs])
  have 2: "ParseChunk val (?N @ ?F) (length ?N + length ?F) ?d1 = ParseChunk val ?F (length ?F) ?d2"
    by (rule ParseChunk_normals [OF ns])
  have 3: "ParseChunk val (?F @ []) (length ?F + length ([] :: string)) ?d2
      = ParseChunk val [] (length ([] :: string)) ?d3"
    by (rule ParseChunk_faces [OF assms(2)])
  have "ParseChunk val (?V @ ?N @ ?F) (length (?V @ ?N @ ?F)) empty_ChunkData = ?d3"
    using 1 2 3 by (simp add: ParseChunk_nothing)
  then show ?thesis
    by (simp add: text_mode_OBJ_text [OF assms(1)] empty_ChunkData_def)
qed

lemma length_le_concat:
  assumes "\<And>x. f x \<noteq> []"
  shows "length xs \<le> length (concat (map f xs))"
proof (induction xs)
  case Nil
  show ?case by simp
next
  case (Cons x xs)
  have "1 \<le> length (f x)" using assms [of x] by (cases "f x") auto
  with Cons show ?case by simp
qed

lemma length_text_mode: "length t \<le> length (text_mode t)"
  by (induction t) (simp_all add: text_mode_def)

lemma length_Vertices_le_OBJ_text:
  "length (Vertices geomData) \<le> length (text_mode (OBJ_text fmt geomData))"
proof -
  have "length (Vertices geomData)
      \<le> length (concat (map (\<lambda>vertex. ''v '' @ show_vec3 fmt vertex) (Vertices geomData)))"
    by (rule length_le_concat) simp
  also have "\<dots> \<le> length (OBJ_text fmt geomData)" by (simp add: OBJ_text_def)
  also have "\<dots> \<le> length (text_mode (OBJ_text fmt geomData))" by (rule length_text_mode)
  finally show ?thesis .
qed

lemma index_plus_one_nonzero:
  fixes index :: "32 word"
  assumes "unat index + 1 < 2 ^ 32"
  shows "index + 1 \<noteq> 0"
proof
  assume z: "index + 1 = 0"
  have "unat index + unat (1 :: 32 word) < 2 ^ LENGTH(32)"
    using assms by simp
  then have "unat (index + 1) = unat index + unat (1 :: 32 word)"
    by (simp only: unat_add_lem)
  with z show False by simp
qed

lemma OBJ_chunks_single:
  "OBJ_chunks file (length file) 1 = [(0, length file)]"
  by (simp add: OBJ_chunks_def OBJ_chunk_def OBJ_adjust_chunk_end_def)

lemma in_view_end: "in_view file (length file) \<longleftrightarrow> int (length file) mod page_size \<noteq> 0"
proof -
  have "0 \<le> (- int (length file)) mod 4096" by simp
  moreover have "(- int (length file)) mod 4096 = 0 \<longleftrightarrow> int (length file) mod 4096 = 0"
    by (simp only: mod_eq_0_iff_dvd dvd_minus_iff)
  ultimately show ?thesis
    unfolding in_view_def page_size_def by linarith
qed

lemma vec3_within_reread:
  assumes "vec3_all (\<lambda>x. \<bar>val (fmt x) - x\<bar> \<le> tol) v"
  shows "vec3_within tol v (reread val fmt v)"
  using assms by (cases v) (simp add: vec3_all_def vec3_within_def reread_def)

text \<open>
  Claim C3, amended. Take a mesh whose polygon indices are all below the number of
  vertices and whose polygons all have at least one index. Printing a \<open>float\<close> and
  scanning the text back has a tolerance \<open>tol\<close>: every coordinate of the mesh prints as a
  text that \<open>strtof\<close> reads whole, to a value within \<open>tol\<close> of the coordinate. Let the
  file that \<open>ExportBaseMeshGeometryDataToOBJ\<close> writes be shorter than \<open>2^32\<close> bytes, and
  its size not a multiple of the page size. Then the export succeeds, and
  \<open>ImportOBJMeshGeometryData\<close> with \<open>importInParallel\<close> false, on a path with the
  extension \<open>obj\<close> that holds the file, returns a mesh with the same number of vertices
  and of normals, in the same order, each coordinate within \<open>tol\<close> of the exported one,
  and with the same polygon index lists.
\<close>

theorem C3_export_then_single_threaded_import:
  fixes geomData :: "real BaseMeshGeometryData"
  assumes ext: "ExtractLowercaseFileExtensionFromPath absFileName = ''obj''"
    and wr: "writable absFileName"
    and coords: "\<forall>v \<in> set (Vertices geomData @ VertexNormals geomData).
                   vec3_all (\<lambda>x. scans_back (fmt x) \<and> \<bar>val (fmt x) - x\<bar> \<le> tol) v"
    and resolved: "\<forall>indices \<in> set (PolyIndices geomData).
                     \<forall>index \<in> set indices. unat index < length (Vertices geomData)"
    and polygons: "\<forall>indices \<in> set (PolyIndices geomData). indices \<noteq> []"
    and bytes: "file = text_mode (OBJ_text fmt geomData)"
    and size: "int (length file) < 2 ^ 32"
    and page: "int (length file) mod page_size \<noteq> 0"
  shows "ExportBaseMeshGeometryDataToOBJ fmt writable geomData absFileName
           = (True, [ofstream_open absFileName], [(absFileName, file)])
         \<and> (\<exists>imported.
           fst (ImportOBJMeshGeometryData val hw (fs(absFileName \<mapsto> file)) absFileName False)
             = Returned (Some imported)
           \<and> list_all2 (vec3_within tol) (Vertices geomData) (Vertices imported)
           \<and> list_all2 (vec3_within tol) (VertexNormals geomData) (VertexNormals imported)
           \<and> PolyIndices imported = PolyIndices geomData
           \<and> Vertices imported = map (reread val fmt) (Vertices geomData)
           \<and> VertexNormals imported = map (reread val fmt) (VertexNormals geomData))"
proof -
  let ?text = "text_mode (OBJ_text fmt geomData)"
  let ?imported = "\<lparr>Vertices = map (reread val fmt) (Vertices geomData),
                    PolyIndices = PolyIndices geomData,
                    VertexNormals = map (reread val fmt) (VertexNormals geomData)\<rparr>"
  have export: "ExportBaseMeshGeometryDataToOBJ fmt writable geomData absFileName
           = (True, [ofstream_open absFileName], [(absFileName, file)])"
    using wr by (simp add: ExportBaseMeshGeometryDataToOBJ_def bytes)
  from size have sz: "length ?text < 2 ^ 32"
    unfolding bytes by (simp only: of_nat_less_numeral_power_cancel_iff)
  have sb: "\<forall>v \<in> set (Vertices geomData @ VertexNormals geomData). vec3_all (\<lambda>x. scans_back (fmt x)) v"
  proof
    fix v assume "v \<in> set (Vertices geomData @ VertexNormals geomData)"
    with coords have "vec3_all (\<lambda>x. scans_back (fmt x) \<and> \<bar>val (fmt x) - x\<bar> \<le> tol) v" by blast
    then show "vec3_all (\<lambda>x. scans_back (fmt x)) v"
      by (cases v) (simp add: vec3_all_def)
  qed
  have tl: "\<forall>v \<in> set (Vertices geomData @ VertexNormals geomData).
              vec3_all (\<lambda>x. \<bar>val (fmt x) - x\<bar> \<le> tol) v"
  proof
    fix v assume "v \<in> set (Vertices geomData @ VertexNormals geomData)"
    with coords have "vec3_all (\<lambda>x. scans_back (fmt x) \<and> \<bar>val (fmt x) - x\<bar> \<le> tol) v" by blast
    then show "vec3_all (\<lambda>x. \<bar>val (fmt x) - x\<bar> \<le> tol) v"
      by (cases v) (simp add: vec3_all_def)
  qed
  have idx: "\<forall>indices \<in> set (PolyIndices geomData). indices \<noteq> [] \<and> (\<forall>j \<in> set indices. j + 1 \<noteq> 0)"
  proof (intro ballI conjI)
    fix indices assume p: "indices \<in> set (PolyIndices geomData)"
    with polygons show "indices \<noteq> []" by blast
    fix j assume "j \<in> set indices"
    with resolved p have "unat j < length (Vertices geomData)" by blast
    also have "\<dots> \<le> length ?text" by (rule length_Vertices_le_OBJ_text)
    finally have "unat j + 1 \<le> length ?text" by simp
    with sz have "unat j + 1 < 2 ^ 32" by linarith
    then show "j + 1 \<noteq> 0" by (rule index_plus_one_nonzero)
  qed
  from page have nonempty: "file \<noteq> []" by auto
  have fsz: "nat (int (length ?text) mod 2 ^ 32) = length ?text"
    using size unfolding bytes by simp
  have pc: "ParseChunk val ?text (length ?text) empty_ChunkData
         = \<lparr>chunk_Vertices = map (reread val fmt) (Vertices geomData),
            chunk_VertexNormals = map (reread val fmt) (VertexNormals geomData),
            chunk_PolyIndices = PolyIndices geomData\<rparr>"
    by (rule ParseChunk_OBJ_text [OF sb idx])
  have "in_view ?text (length ?text)"
    using page unfolding bytes by (simp add: in_view_end)
  then have view: "in_view ?text (nat (int (length ?text) mod 2 ^ 32))"
    by (simp only: fsz)
  have chunks: "OBJ_chunks ?text (nat (int (length ?text) mod 2 ^ 32)) 1 = [(0, length ?text)]"
    by (simp only: fsz OBJ_chunks_single)
  have imp: "fst (ImportOBJMeshGeometryData val hw (fs(absFileName \<mapsto> file)) absFileName False)
      = Returned (Some ?imported)"
    using nonempty view chunks
    unfolding ImportOBJMeshGeometryData_def bytes
    by (simp add: ext pc Let_def)
  have v: "list_all2 (vec3_within tol) (Vertices geomData) (map (reread val fmt) (Vertices geomData))"
    using tl by (simp add: list_all2_map2 list_all2_same vec3_within_reread)
  have n: "list_all2 (vec3_within tol) (VertexNormals geomData) (map (reread val fmt) (VertexNormals geomData))"
    using tl by (simp add: list_all2_map2 list_all2_same vec3_within_reread)
  from export imp v n show ?thesis by simp
qed

text \<open>
  Claim C3, as stated, fails on a polygon without indices: the exporter writes the line
  \<open>f\<close>, which the importer does not recognise as a face, so the re-imported mesh has no
  polygon where the exported one has an empty one. The mesh is resolved: it has no
  index at all.
\<close>

theorem C3_empty_polygon_is_lost:
  "PolyIndices empty_polygon_mesh = [[]]
   \<and> ExportBaseMeshGeometryDataToOBJ (\<lambda>s. s) (\<lambda>p. True) empty_polygon_mesh ''m.obj''
       = (True, [ofstream_open ''m.obj''], [(''m.obj'', ''v 0 0 0'' @ [CR, NL] @ ''f'' @ [CR, NL])])
   \<and> fst (ImportOBJMeshGeometryData (\<lambda>s. s) 1 [''m.obj'' \<mapsto> ''v 0 0 0'' @ [CR, NL] @ ''f'' @ [CR, NL]] ''m.obj'' False)
       = Returned (Some \<lparr>Vertices = [(''0'', ''0'', ''0'')], PolyIndices = [], VertexNormals = []\<rparr>)"
  by code_simp

text \<open>
  The two conditions on the size of the file. \<open>GetFileSize\<close> is asked for the low 32 bits
  of the size only: of a file of \<open>2^32\<close> bytes, here \<open>2^28\<close> vertex lines of 16 bytes, the
  importer sees the size 0 and returns a mesh without vertices. When the size is a
  multiple of the page size, the byte at \<open>file_end\<close>, which line 574 reads, is outside
  the mapped view: on 256 vertex lines of 16 bytes the import is a read out of bounds. A
  mesh without vertices, normals and polygons is written as an empty file, which
  cannot be mapped, and the import returns nothing.
\<close>

lemma length_page_of_vertices:
  "length (text_mode (OBJ_text (\<lambda>s. s) (page_of_vertices n))) = 16 * n"
  by (induction n) (simp_all add: page_of_vertices_def OBJ_text_def show_vec3_def text_mode_def)

lemma ext_m_obj: "ExtractLowercaseFileExtensionFromPath ''m.obj'' = ''obj''"
  by code_simp

lemma import_of_one_page:
  "length (text_mode (OBJ_text (\<lambda>s. s) (page_of_vertices 256))) = 4096
   \<and> fst (ImportOBJMeshGeometryData (\<lambda>s. s) 1
          [''m.obj'' \<mapsto> text_mode (OBJ_text (\<lambda>s. s) (page_of_vertices 256))] ''m.obj'' False)
     = Crashed OutOfBounds"
proof -
  let ?file = "text_mode (OBJ_text (\<lambda>s. s) (page_of_vertices 256))"
  have l: "length ?file = 4096" by (simp add: length_page_of_vertices)
  then have ne: "?file \<noteq> []" by auto
  have "\<not> in_view ?file (nat (int (length ?file) mod 2 ^ 32))"
    using in_view_end [of ?file] by (simp add: l page_size_def)
  with ne have "fst (ImportOBJMeshGeometryData (\<lambda>s. s) 1 [''m.obj'' \<mapsto> ?file] ''m.obj'' False)
     = Crashed OutOfBounds"
    unfolding ImportOBJMeshGeometryData_def
    by (simp add: ext_m_obj Let_def)
  with l show ?thesis by simp
qed

lemma import_of_4_GiB:
  "int (length (text_mode (OBJ_text (\<lambda>s. s) (page_of_vertices (2 ^ 28))))) = 2 ^ 32
   \<and> fst (ImportOBJMeshGeometryData (\<lambda>s. s) 1
          [''m.obj'' \<mapsto> text_mode (OBJ_text (\<lambda>s. s) (page_of_vertices (2 ^ 28)))] ''m.obj'' False)
     = Returned (Some \<lparr>Vertices = [], PolyIndices = [], VertexNormals = []\<rparr>)"
proof -
  define bytes where "bytes = text_mode (OBJ_text (\<lambda>s. s) (page_of_vertices (2 ^ 28)))"
  have "length bytes = 16 * 2 ^ 28"
    unfolding bytes_def by (rule length_page_of_vertices)
  then have l: "int (length bytes) = 2 ^ 32" by simp
  then have ne: "bytes \<noteq> []" by auto
  have fsz: "nat (int (length bytes) mod 2 ^ 32) = 0" by (simp add: l)
  have "in_view bytes 0"
    unfolding in_view_def page_size_def l by simp
  then have view: "in_view bytes (nat (int (length bytes) mod 2 ^ 32))"
    by (simp only: fsz)
  have "OBJ_chunks bytes 0 1 = [(0, 0)]"
    by (simp add: OBJ_chunks_def OBJ_chunk_def OBJ_adjust_chunk_end_def skip_to_newline_0)
  then have chunks: "OBJ_chunks bytes (nat (int (length bytes) mod 2 ^ 32)) 1 = [(0, 0)]"
    by (simp only: fsz)
  have "fst (ImportOBJMeshGeometryData (\<lambda>s. s) 1 [''m.obj'' \<mapsto> bytes] ''m.obj'' False)
     = Returned (Some \<lparr>Vertices = [], PolyIndices = [], VertexNormals = []\<rparr>)"
    unfolding ImportOBJMeshGeometryData_def
    using ne view chunks
    by (simp add: ext_m_obj Let_def ParseChunk_nothing empty_ChunkData_def)
  with l show ?thesis by (simp only: bytes_def simp_thms)
qed

lemma export_of_empty_mesh_is_not_imported:
  "ExportBaseMeshGeometryDataToOBJ (\<lambda>s. s) (\<lambda>p. True)
       \<lparr>Vertices = [], PolyIndices = [], VertexNormals = []\<rparr> ''m.obj''
     = (True, [ofstream_open ''m.obj''], [(''m.obj'', [])])
   \<and> fst (ImportOBJMeshGeometryData (\<lambda>s. s) 1 [''m.obj'' \<mapsto> []] ''m.obj'' False) = Returned None"
  by code_simp

text \<open>
  The import in parallel is left out of the amended claim: a line that starts at the
  nominal end of a chunk is parsed by two threads (claim C1), and so the second of two
  exported vertices comes back twice.
\<close>

lemma export_then_parallel_import_duplicates:
  "ExportBaseMeshGeometryDataToOBJ (\<lambda>s. s) (\<lambda>p. True)
       \<lparr>Vertices = [(''1'', ''2'', ''3''), (''4'', ''5'', ''6'')], PolyIndices = [],
        VertexNormals = []\<rparr> ''m.obj''
     = (True, [ofstream_open ''m.obj''],
        [(''m.obj'', ''v 1 2 3'' @ [CR, NL] @ ''v 4 5 6'' @ [CR, NL])])
   \<and> fst (ImportOBJMeshGeometryData (\<lambda>s. s) 2
            [''m.obj'' \<mapsto> ''v 1 2 3'' @ [CR, NL] @ ''v 4 5 6'' @ [CR, NL]] ''m.obj'' True)
     = Returned (Some \<lparr>Vertices = [(''1'', ''2'', ''3''), (''4'', ''5'', ''6''), (''4'', ''5'', ''6'')],
                       PolyIndices = [], VertexNormals = []\<rparr>)"
  by code_simp

text \<open>A natural number printed in decimal is read back whole, and so are the texts of
  \<open>printed_floats\<close>.\<close>

lemma starts_with_digit:
  assumes "isdigit d" and "w \<noteq> []" and "\<not> isdigit (hd w)"
  shows "\<not> starts_with w (d # rest)"
proof
  assume s: "starts_with w (d # rest)"
  obtain a as where w: "w = a # as" using assms(2) by (cases w) auto
  from s have "tolower d = a" by (simp add: starts_with_def w)
  moreover from assms(1) have "tolower d = d" by (auto simp: tolower_def isdigit_def)
  ultimately show False using assms(1,3) by (simp add: w)
qed

lemma scans_back_show_dec: "scans_back (show_dec n)"
  unfolding scans_back_def
proof (intro allI impI conjI)
  fix c :: char and rest :: string
  assume c: "c = SP \<or> c = CR"
  obtain d ds where ds: "show_dec n = d # ds"
    using show_dec_nonempty [of n] by (cases "show_dec n") auto
  have dig: "\<forall>c \<in> set (show_dec n). isdigit c"
    using show_dec_digits by blast
  then have d: "isdigit d" by (simp add: ds)
  have nd: "\<not> isdigit c" using c by auto
  have sg: "sign_len (show_dec n @ c # rest) = 0"
    using d by (simp add: ds sign_len_def isdigit_not_sign)
  have sd: "scan_digits (show_dec n @ c # rest) = length (show_dec n)"
    unfolding scan_digits_def using takeWhile_digits [OF dig nd] by simp
  have inf: "scan_inf_nan (show_dec n @ c # rest) = 0"
    unfolding scan_inf_nan_def ds
    using starts_with_digit [OF d, of "''infinity''"] starts_with_digit [OF d, of "''inf''"]
      starts_with_digit [OF d, of "''nan''"]
    by (simp add: isdigit_def)
  have x: "tolower e \<noteq> CHR ''x''" if "isdigit e \<or> e = SP \<or> e = CR" for e
    using that by (auto simp: tolower_def isdigit_def)
  have "\<not> starts_with ''0x'' (show_dec n @ c # rest)"
  proof (cases ds)
    case Nil
    with c x [of c] show ?thesis by (simp add: starts_with_def ds)
  next
    case (Cons e es)
    with dig have "isdigit e" by (simp add: ds)
    with x [of e] show ?thesis by (simp add: starts_with_def ds Cons)
  qed
  then have hex: "scan_hexadecimal (show_dec n @ c # rest) = 0"
    by (simp add: scan_hexadecimal_def)
  have dec: "scan_decimal (show_dec n @ c # rest) = length (show_dec n)"
    unfolding scan_decimal_def Let_def
    using c by (auto simp: sd scan_exponent_def show_dec_nonempty)
  show "scan_float (show_dec n @ c # rest) = length (show_dec n)"
    unfolding scan_float_def Let_def sg
    by (simp add: inf hex dec show_dec_nonempty)
next
  show "show_dec n \<noteq> []" by (rule show_dec_nonempty)
  obtain d ds where ds: "show_dec n = d # ds"
    using show_dec_nonempty [of n] by (cases "show_dec n") auto
  then have "isdigit d" using show_dec_digits [of d n] by simp
  then show "\<not> isspace (hd (show_dec n))" by (simp add: ds isdigit_not_space)
  show "NL \<notin> set (show_dec n)" by (rule show_dec_no_newline)
qed

lemma scans_back_printed_floats: "list_all scans_back printed_floats"
  unfolding printed_floats_def scans_back_def
  by (auto simp: isspace_def scan_float_def scan_decimal_def scan_exponent_def scan_digits_def
      scan_inf_nan_def scan_hexadecimal_def starts_with_def tolower_def isalnum_def
      sign_len_def is_sign_def isdigit_def Let_def)

lemma show_dec_digit: "n < 10 \<Longrightarrow> show_dec n = [char_of (48 + n)]"
  by (subst show_dec.simps) simp

lemma show_dec_simps:
  "show_dec 0 = ''0''" "show_dec 1 = ''1''" "show_dec (Suc 0) = ''1''"
  "show_dec 2 = ''2''" "show_dec 3 = ''3''"
proof -
  have e: "char_of (48 :: nat) = CHR ''0''" "char_of (49 :: nat) = CHR ''1''"
    "char_of (50 :: nat) = CHR ''2''" "char_of (51 :: nat) = CHR ''3''"
    by (simp_all add: char_of_def bit_iff_odd)
  show "show_dec 0 = ''0''" using show_dec_digit [of 0] e by simp
  show "show_dec 1 = ''1''" using show_dec_digit [of 1] e by simp
  then show "show_dec (Suc 0) = ''1''" by simp
  show "show_dec 2 = ''2''" using show_dec_digit [of 2] e by simp
  show "show_dec 3 = ''3''" using show_dec_digit [of 3] e by simp
qed

lemma print_natural_simps: "print_natural 0 = ''0''" "print_natural 1 = ''1''"
  by (simp_all add: print_natural_def show_dec_simps)

lemma text_real_triangle:
  "text_mode (OBJ_text print_natural real_triangle)
   = ''v 0 0 0'' @ [CR, NL] @ ''v 1 0 0'' @ [CR, NL] @ ''v 0 1 0'' @ [CR, NL] @
     ''vn 0 0 1'' @ [CR, NL] @ ''f 1 2 3'' @ [CR, NL]"
  by (simp add: OBJ_text_def real_triangle_def show_vec3_def text_mode_def print_natural_simps
      show_dec_simps)

text \<open>The amended claim C3 on a triangle with coordinates 0 and 1 and one normal, with
  the tolerance 0.\<close>

theorem C3_export_then_single_threaded_import_witness:
  "ExtractLowercaseFileExtensionFromPath ''m.obj'' = ''obj''
   \<and> list_all (vec3_all (\<lambda>x. scans_back (print_natural x)
                              \<and> \<bar>scan_natural (print_natural x) - x\<bar> \<le> 0))
        (Vertices real_triangle @ VertexNormals real_triangle)
   \<and> list_all (\<lambda>indices. indices \<noteq> []
                 \<and> list_all (\<lambda>index. unat index < length (Vertices real_triangle)) indices)
        (PolyIndices real_triangle)
   \<and> int (length (text_mode (OBJ_text print_natural real_triangle))) < 2 ^ 32
   \<and> int (length (text_mode (OBJ_text print_natural real_triangle))) mod page_size \<noteq> 0
   \<and> ExportBaseMeshGeometryDataToOBJ print_natural (\<lambda>p. True) real_triangle ''m.obj''
       = (True, [ofstream_open ''m.obj''],
          [(''m.obj'', text_mode (OBJ_text print_natural real_triangle))])
   \<and> fst (ImportOBJMeshGeometryData scan_natural 8
            [''m.obj'' \<mapsto> text_mode (OBJ_text print_natural real_triangle)] ''m.obj'' False)
       = Returned (Some real_triangle)"
proof -
  have e: "ExtractLowercaseFileExtensionFromPath ''m.obj'' = ''obj''" by code_simp
  have rt: "scan_natural (print_natural x) = x" if "x = 0 \<or> x = 1" for x
    using that by (auto simp: scan_natural_def print_natural_def dec_value_show_dec)
  have sb: "scans_back (print_natural x)" for x
    by (simp add: print_natural_def scans_back_show_dec)
  have c: "\<forall>v \<in> set (Vertices real_triangle @ VertexNormals real_triangle).
             vec3_all (\<lambda>x. scans_back (print_natural x)
                            \<and> \<bar>scan_natural (print_natural x) - x\<bar> \<le> 0) v"
    by (simp add: real_triangle_def vec3_all_def sb rt)
  have r: "\<forall>indices \<in> set (PolyIndices real_triangle).
             \<forall>index \<in> set indices. unat index < length (Vertices real_triangle)"
    by (simp add: real_triangle_def)
  have p: "\<forall>indices \<in> set (PolyIndices real_triangle). indices \<noteq> []"
    by (simp add: real_triangle_def)
  have s: "int (length (text_mode (OBJ_text print_natural real_triangle))) < 2 ^ 32"
    by (simp add: text_real_triangle)
  have g: "int (length (text_mode (OBJ_text print_natural real_triangle))) mod page_size \<noteq> 0"
    by (simp add: text_real_triangle page_size_def)
  have v: "reread scan_natural print_natural u = u"
    if "u \<in> set (Vertices real_triangle @ VertexNormals real_triangle)" for u
    using that by (auto simp: real_triangle_def reread_def rt)
  from C3_export_then_single_threaded_import [of "''m.obj''" "\<lambda>p. True" real_triangle
      print_natural scan_natural 0 "text_mode (OBJ_text print_natural real_triangle)" 8 Map.empty,
      OF e _ c r p refl s g]
  obtain imported where x: "ExportBaseMeshGeometryDataToOBJ print_natural (\<lambda>p. True) real_triangle ''m.obj''
       = (True, [ofstream_open ''m.obj''],
          [(''m.obj'', text_mode (OBJ_text print_natural real_triangle))])"
    and i: "fst (ImportOBJMeshGeometryData scan_natural 8
            [''m.obj'' \<mapsto> text_mode (OBJ_text print_natural real_triangle)] ''m.obj'' False)
       = Returned (Some imported)"
    and f: "PolyIndices imported = PolyIndices real_triangle"
      "Vertices imported = map (reread scan_natural print_natural) (Vertices real_triangle)"
      "VertexNormals imported = map (reread scan_natural print_natural) (VertexNormals real_triangle)"
    by auto
  from f v have "imported = real_triangle"
    by (cases imported) (simp add: real_triangle_def map_idI)
  with e c r p s g x i show ?thesis
    by (simp add: list_all_iff)
qed

subsection \<open>C4: the extension is checked before any I/O\<close>

text \<open>
  Claim C4, as stated, fails for \<open>ExportBaseMeshGeometryDataToOBJ\<close> and
  \<open>ExportBaseMeshGeometryDataToVTK\<close>: they do not look at the extension. On the path
  \<open>mesh.txt\<close> both open the file, write it and return true.
\<close>

theorem C4_export_opens_any_extension:
  "ExtractLowercaseFileExtensionFromPath ''mesh.txt'' = ''txt''
   \<and> ExportBaseMeshGeometryDataToOBJ (\<lambda>s. s) (\<lambda>p. True) one_triangle ''mesh.txt''
       = (True, [ofstream_open ''mesh.txt''], [(''mesh.txt'', text_mode (OBJ_text (\<lambda>s. s) one_triangle))])
   \<and> ExportBaseMeshGeometryDataToVTK (\<lambda>s. s) (\<lambda>p. True) one_triangle ''mesh.txt''
       = (True, [ofstream_open ''mesh.txt''], [(''mesh.txt'', text_mode (VTK_text (\<lambda>s. s) one_triangle))])"
  by (simp add: ExportBaseMeshGeometryDataToOBJ_def ExportBaseMeshGeometryDataToVTK_def
      ExtractLowercaseFileExtensionFromPath_def tolower_def)

text \<open>
  Claim C4, amended: the operations that test the extension are
  \<open>ImportOBJMeshGeometryData\<close> and \<open>ExportPolylinesToOBJ\<close> (for \<open>obj\<close>) and
  \<open>ImportPLYPointCloudData\<close>, \<open>ImportPLYPointCloudDataMainThread\<close>,
  \<open>ExportSampledVerticesToPLY\<close> and \<open>ExportPointsToPLY\<close> (for \<open>ply\<close>). Each of them,
  called with a path whose lowercase extension is another one, returns its failure value
  and has opened no file and written nothing.
\<close>

theorem C4_extension_checked_before_io:
  "(ExtractLowercaseFileExtensionFromPath absFileName \<noteq> ''obj'' \<longrightarrow>
      ImportOBJMeshGeometryData val hw fs absFileName importInParallel = (Returned None, [])
      \<and> ExportPolylinesToOBJ fmt writable polylines absFileName = (False, [], []))
   \<and> (ExtractLowercaseFileExtensionFromPath absFileName \<noteq> ''ply'' \<longrightarrow>
      ImportPLYPointCloudData sval hw fs absFileName importInParallel = (Returned None, [])
      \<and> ImportPLYPointCloudDataMainThread sval can_allocate fs absFileName = (Returned None, [])
      \<and> ExportSampledVerticesToPLY mt19937 distrib rd fmt writable meshData nVerts absFileName seed
          = (Returned False, [], [])
      \<and> ExportPointsToPLY fmt writable meshData absFileName = (False, [], []))"
  by (simp add: ImportOBJMeshGeometryData_def ExportPolylinesToOBJ_def ImportPLYPointCloudData_def
      ImportPLYPointCloudDataMainThread_def ExportSampledVerticesToPLY_def ExportPointsToPLY_def)

text \<open>The amended claim C4 at the path \<open>mesh.txt\<close>.\<close>

theorem C4_extension_checked_before_io_witness:
  "ExtractLowercaseFileExtensionFromPath ''mesh.txt'' \<noteq> ''obj''
   \<and> ExtractLowercaseFileExtensionFromPath ''mesh.txt'' \<noteq> ''ply''
   \<and> ImportOBJMeshGeometryData (\<lambda>s. s) 2 [''mesh.txt'' \<mapsto> two_vertices_obj] ''mesh.txt'' True = (Returned None, [])
   \<and> ExportPolylinesToOBJ (\<lambda>s. s) (\<lambda>p. True) [[(''0'', ''0'', ''0''), (''1'', ''0'', ''0'')]] ''mesh.txt'' = (False, [], [])
   \<and> ImportPLYPointCloudData Some 2 [''mesh.txt'' \<mapsto> two_vertices_obj] ''mesh.txt'' True = (Returned None, [])
   \<and> ImportPLYPointCloudDataMainThread Some (\<lambda>n. True) [''mesh.txt'' \<mapsto> two_vertices_obj] ''mesh.txt''
        = (Returned None, [])
   \<and> ExportSampledVerticesToPLY (\<lambda>s. s) (\<lambda>a b g. (0, g + 1)) 7 (\<lambda>s. s) (\<lambda>p. True) one_triangle 2 ''mesh.txt'' (Some 5)
        = (Returned False, [], [])
   \<and> ExportPointsToPLY (\<lambda>s. s) (\<lambda>p. True) one_triangle ''mesh.txt'' = (False, [], [])"
proof -
  have e: "ExtractLowercaseFileExtensionFromPath ''mesh.txt'' = ''txt''"
    by (simp add: ExtractLowercaseFileExtensionFromPath_def tolower_def)
  show ?thesis
    using C4_extension_checked_before_io [of "''mesh.txt''" "\<lambda>s. s" 2
        "[''mesh.txt'' \<mapsto> two_vertices_obj]" True "\<lambda>s. s" "\<lambda>p. True"
        "[[(''0'', ''0'', ''0''), (''1'', ''0'', ''0'')]]" Some "\<lambda>n. True" "\<lambda>s. s"
        "\<lambda>a b g. (0, g + 1)" 7 one_triangle 2 "Some 5"]
    by (simp add: e)
qed

subsection \<open>C5: the convex hull\<close>

lemma hull_triangles_step:
  assumes "hull_triangles b i = Some polys" and "i < length b"
  obtains rest where "i + 2 < length b" and "hull_triangles b (i + 3) = Some rest"
    and "polys = [of_nat (b ! i), of_nat (b ! (i + 1)), of_nat (b ! (i + 2))] # rest"
  using assms by (subst (asm) hull_triangles.simps) (auto split: if_splits)

lemma hull_triangles_done: "\<not> i < length b \<Longrightarrow> hull_triangles b i = Some []"
  by (subst hull_triangles.simps) simp

lemma hull_triangles_length:
  "hull_triangles b i = Some polys \<Longrightarrow> p \<in> set polys \<Longrightarrow> length p = 3"
proof (induction b i arbitrary: polys rule: hull_triangles.induct)
  case (1 b i)
  show ?case
  proof (cases "i < length b")
    case True
    from "1.prems"(1) True obtain rest where r: "i + 2 < length b"
      "hull_triangles b (i + 3) = Some rest"
      "polys = [of_nat (b ! i), of_nat (b ! (i + 1)), of_nat (b ! (i + 2))] # rest"
      by (rule hull_triangles_step)
    with "1.prems"(2) "1.IH" [OF True r(1) r(2)] show ?thesis by auto
  next
    case False
    with "1.prems" show ?thesis by (simp add: hull_triangles_done)
  qed
qed

lemma hull_triangles_concat:
  "hull_triangles b i = Some polys \<Longrightarrow> concat polys = map of_nat (drop i b)"
proof (induction b i arbitrary: polys rule: hull_triangles.induct)
  case (1 b i)
  show ?case
  proof (cases "i < length b")
    case True
    from "1.prems"(1) True obtain rest where r: "i + 2 < length b"
      "hull_triangles b (i + 3) = Some rest"
      "polys = [of_nat (b ! i), of_nat (b ! (i + 1)), of_nat (b ! (i + 2))] # rest"
      by (rule hull_triangles_step)
    have e: "i + 1 = Suc i" "i + 2 = Suc (Suc i)" "i + 3 = Suc (Suc (Suc i))" by simp_all
    have "drop i b = b ! i # drop (Suc i) b"
      and "drop (Suc i) b = b ! Suc i # drop (Suc (Suc i)) b"
      and "drop (Suc (Suc i)) b = b ! Suc (Suc i) # drop (Suc (Suc (Suc i))) b"
      using r(1) by (simp_all add: Cons_nth_drop_Suc)
    then have "drop i b = b ! i # b ! (i + 1) # b ! (i + 2) # drop (i + 3) b"
      unfolding e by simp
    with r "1.IH" [OF True r(1) r(2)] show ?thesis by simp
  next
    case False
    with "1.prems" show ?thesis by (simp add: hull_triangles_done)
  qed
qed

lemma ComputeConvexHullFromPoints_Some:
  assumes "ComputeConvexHullFromPoints getConvexHull points = Returned (Some baseMesh)"
  shows "hull_triangles (snd (getConvexHull points)) 0 = Some (PolyIndices baseMesh)
         \<and> Vertices baseMesh = fst (getConvexHull points)"
proof (cases "getConvexHull points")
  case (Pair vb ib)
  show ?thesis
  proof (cases "hull_triangles ib 0")
    case None
    with assms Pair show ?thesis
      by (simp add: ComputeConvexHullFromPoints_def split: if_splits)
  next
    case (Some polys)
    with assms Pair show ?thesis
      by (auto simp add: ComputeConvexHullFromPoints_def split: if_splits)
  qed
qed

text \<open>
  Claim C5: \<open>ComputeConvexHullFromPoints\<close> returns the empty optional, and does not
  crash, when there are fewer than 4 points, when the hull has fewer than 4 vertices and
  when the length of the index buffer of the hull is not a multiple of 3. When it returns
  a mesh, every polygon has three indices, and the polygons are the index buffer of the
  hull, entry by entry: the indices are the 0-based positions in the vertex buffer of
  the hull, which is the vertex list of the mesh.
\<close>

theorem C5_convex_hull_failures_and_triangles:
  "(length points < 4 \<longrightarrow> ComputeConvexHullFromPoints getConvexHull points = Returned None)
   \<and> (length (fst (getConvexHull points)) < 4 \<longrightarrow>
        ComputeConvexHullFromPoints getConvexHull points = Returned None)
   \<and> (length (snd (getConvexHull points)) mod 3 \<noteq> 0 \<longrightarrow>
        ComputeConvexHullFromPoints getConvexHull points = Returned None)
   \<and> (ComputeConvexHullFromPoints getConvexHull points = Returned (Some baseMesh) \<longrightarrow>
        (\<forall>indices \<in> set (PolyIndices baseMesh). length indices = 3)
        \<and> concat (PolyIndices baseMesh) = map of_nat (snd (getConvexHull points))
        \<and> Vertices baseMesh = fst (getConvexHull points))"
proof (intro conjI impI)
  assume "length points < 4"
  then show "ComputeConvexHullFromPoints getConvexHull points = Returned None"
    by (simp add: ComputeConvexHullFromPoints_def)
next
  assume "length (fst (getConvexHull points)) < 4"
  then show "ComputeConvexHullFromPoints getConvexHull points = Returned None"
    by (cases "getConvexHull points") (simp add: ComputeConvexHullFromPoints_def)
next
  assume "length (snd (getConvexHull points)) mod 3 \<noteq> 0"
  then show "ComputeConvexHullFromPoints getConvexHull points = Returned None"
    by (cases "getConvexHull points") (simp add: ComputeConvexHullFromPoints_def)
next
  assume ok: "ComputeConvexHullFromPoints getConvexHull points = Returned (Some baseMesh)"
  note h = ComputeConvexHullFromPoints_Some [OF ok]
  from h show "\<forall>indices \<in> set (PolyIndices baseMesh). length indices = 3"
    by (auto dest: hull_triangles_length)
  from h show "concat (PolyIndices baseMesh) = map of_nat (snd (getConvexHull points))"
    by (auto dest: hull_triangles_concat)
  from h show "Vertices baseMesh = fst (getConvexHull points)" by simp
qed

text \<open>Claim C5 on three points, and on the four corners of a tetrahedron.\<close>

theorem C5_convex_hull_failures_and_triangles_witness:
  "length (take 3 tetrahedron) < 4
   \<and> ComputeConvexHullFromPoints tetrahedron_hull (take 3 tetrahedron) = Returned None
   \<and> ComputeConvexHullFromPoints tetrahedron_hull tetrahedron
       = Returned (Some \<lparr>Vertices = tetrahedron,
                         PolyIndices = [[0, 2, 1], [0, 1, 3], [0, 3, 2], [1, 2, 3]],
                         VertexNormals = []\<rparr>)
   \<and> list_all (\<lambda>indices. length indices = 3) [[0, 2, 1], [0, 1, 3], [0, 3, 2], [1, 2, 3 :: 32 word]]"
proof -
  have t: "ComputeConvexHullFromPoints tetrahedron_hull tetrahedron
       = Returned (Some \<lparr>Vertices = tetrahedron,
                         PolyIndices = [[0, 2, 1], [0, 1, 3], [0, 3, 2], [1, 2, 3]],
                         VertexNormals = []\<rparr>)"
    by code_simp
  have s: "length (take 3 tetrahedron) < 4" by (simp add: tetrahedron_def)
  from C5_convex_hull_failures_and_triangles [of "take 3 tetrahedron" tetrahedron_hull] s
  have "ComputeConvexHullFromPoints tetrahedron_hull (take 3 tetrahedron) = Returned None"
    by blast
  moreover from C5_convex_hull_failures_and_triangles [of tetrahedron tetrahedron_hull] t
  have "\<forall>indices \<in> set (PolyIndices \<lparr>Vertices = tetrahedron,
                         PolyIndices = [[0, 2, 1], [0, 1, 3], [0, 3, 2], [1, 2, 3]],
                         VertexNormals = []\<rparr>). length indices = 3"
    by blast
  ultimately show ?thesis using s t by simp
qed

subsection \<open>C6: the bounding sphere of a point set\<close>







subsection \<open>C7: a PLY header without a vertex count\<close>

text \<open>
  Claim C7 says that the header reader reports "not found" when the vertex count is
  absent or \<open>end_header\<close> is never seen, and that the import then fails and returns no
  points. On a header without an \<open>element vertex\<close> line the reader returns the count 0
  with a pointer that is not null, \<open>ImportPLYPointCloudData\<close> tests the pointer only, and
  the import succeeds with the point of the body. \<open>ImportPLYPointCloudDataMainThread\<close>
  refuses the same file.
\<close>

theorem C7_import_without_vertex_count:
  "ReadPLYVertexHeader no_count_ply = (0, Some 15)
   \<and> fst (ImportPLYPointCloudData Some 1 [''c.ply'' \<mapsto> no_count_ply] ''c.ply'' False)
       = Returned (Some [(''1'', ''2'', ''3'')])
   \<and> fst (ImportPLYPointCloudDataMainThread Some (\<lambda>n. True) [''c.ply'' \<mapsto> no_count_ply] ''c.ply'')
       = Returned None"
  by code_simp

text \<open>On that file the import does not fail, and the main-thread importer does.\<close>

theorem C7_import_without_vertex_count_witness:
  "fst (ImportPLYPointCloudData Some 1 [''c.ply'' \<mapsto> no_count_ply] ''c.ply'' False)
     \<noteq> Returned None
   \<and> fst (ImportPLYPointCloudDataMainThread Some (\<lambda>n. True) [''c.ply'' \<mapsto> no_count_ply] ''c.ply'')
     = Returned None"
  using C7_import_without_vertex_count by simp

text \<open>
  When \<open>end_header\<close> is never seen, the reader runs to the end of the file and the import
  fails on the test for vertex data, with the count the header gave.
\<close>

lemma ImportPLY_without_end_header:
  "ReadPLYVertexHeader no_end_header_ply = (1, Some 27)
   \<and> length no_end_header_ply = 27
   \<and> fst (ImportPLYPointCloudData Some 1 [''c.ply'' \<mapsto> no_end_header_ply] ''c.ply'' False)
       = Returned None"
  by code_simp

subsection \<open>C8: the distance statistics on the empty point set\<close>

text \<open>
  Claim C8 says that \<open>ComputeMinInterVertexDistance\<close> and
  \<open>ComputeNearestNeighborMeanInterVertexDistance\<close> report a typed error on the empty
  point set. They return a \<open>pmp::Scalar\<close> and throw nothing: on the empty set the caller
  receives the number \<open>-1\<close>, which is no typed error.
\<close>

theorem C8_empty_point_set_is_not_a_typed_error:
  "fst (ComputeMinInterVertexDistance knnSearch_brute_force []) = Returned (- 1)
   \<and> \<not> is_typed_error (fst (ComputeMinInterVertexDistance knnSearch_brute_force []))
   \<and> fst (ComputeNearestNeighborMeanInterVertexDistance knnSearch_brute_force [] 6) = Returned (Some (- 1))
   \<and> \<not> is_typed_error (fst (ComputeNearestNeighborMeanInterVertexDistance knnSearch_brute_force [] 6))"
  by (simp add: ComputeMinInterVertexDistance_def ComputeNearestNeighborMeanInterVertexDistance_def)

text \<open>
  Claim C8, amended: on the empty point set each of the two statistics writes one line
  that names the function and says \<open>points.empty()\<close> to the error stream and returns
  \<open>-1\<close>, a value no distance takes; it throws nothing and does not crash, whatever the
  spatial index does.
\<close>

theorem C8_empty_point_set_sentinel:
  "ComputeMinInterVertexDistance knnSearch [] =
     (Returned (- 1), [''Geometry::ComputeMinInterVertexDistance: points.empty()!''])
   \<and> ComputeNearestNeighborMeanInterVertexDistance knnSearch [] nNeighbors =
     (Returned (Some (- 1)),
      [''Geometry::ComputeNearestNeighborMeanInterVertexDistance: points.empty()!''])"
  by (simp add: ComputeMinInterVertexDistance_def ComputeNearestNeighborMeanInterVertexDistance_def)

text \<open>The amended claim C8 with the brute-force index and six neighbours.\<close>

theorem C8_empty_point_set_sentinel_witness:
  "ComputeMinInterVertexDistance knnSearch_brute_force [] =
     (Returned (- 1), [''Geometry::ComputeMinInterVertexDistance: points.empty()!''])
   \<and> ComputeNearestNeighborMeanInterVertexDistance knnSearch_brute_force [] 6 =
     (Returned (Some (- 1)),
      [''Geometry::ComputeNearestNeighborMeanInterVertexDistance: points.empty()!''])"
  using C8_empty_point_set_sentinel [of knnSearch_brute_force 6] by simp

subsection \<open>C9: the read of \<open>out_dist_sqr[1]\<close>\<close>

lemma knn_returns_min_brute_force: "knn_returns_min knnSearch_brute_force"
  by (simp add: knn_returns_min_def knnSearch_brute_force_def min.commute)

lemma min_distance_loop_Returned:
  assumes "\<And>p. \<exists>d. do_knn_search_min knnSearch points p = Returned d"
  shows "\<exists>m. min_distance_loop knnSearch points ps minDistance = Returned m"
proof (induction ps arbitrary: minDistance)
  case Nil
  show ?case by simp
next
  case (Cons p ps)
  from assms obtain d where "do_knn_search_min knnSearch points p = Returned d" by blast
  with Cons.IH show ?case by simp
qed

text \<open>
  Claim C9: when the index answers a query for two neighbours with \<open>min 2 n\<close> results,
  then on every point set of at least two points each query of
  \<open>ComputeMinInterVertexDistance\<close> has two results, the read of \<open>out_dist_sqr[1]\<close> is in
  bounds and the function returns a number. The only guard is the one for the empty set:
  on a set of one point the read is out of bounds.
\<close>

theorem C9_min_distance_reads_in_bounds:
  assumes "knn_returns_min knnSearch"
  shows "(2 \<le> length points \<longrightarrow>
            (\<forall>p. length (knnSearch points p 2) = 2
                 \<and> do_knn_search_min knnSearch points p = Returned (knnSearch points p 2 ! 1))
            \<and> (\<exists>d. fst (ComputeMinInterVertexDistance knnSearch points) = Returned d))
         \<and> (length points = 1 \<longrightarrow>
            fst (ComputeMinInterVertexDistance knnSearch points) = Crashed OutOfBounds)"
proof (intro conjI impI)
  assume two: "2 \<le> length points"
  have "length (knnSearch points p 2) = min 2 (length points)" for p
    using assms unfolding knn_returns_min_def by blast
  with two have len: "length (knnSearch points p 2) = 2" for p
    by simp
  then have q: "do_knn_search_min knnSearch points p = Returned (knnSearch points p 2 ! 1)" for p
    by (simp add: do_knn_search_min_def)
  from len q show "\<forall>p. length (knnSearch points p 2) = 2
      \<and> do_knn_search_min knnSearch points p = Returned (knnSearch points p 2 ! 1)"
    by simp
  from q have "\<exists>m. min_distance_loop knnSearch points points FLT_MAX = Returned m"
    by (intro min_distance_loop_Returned) blast
  with two show "\<exists>d. fst (ComputeMinInterVertexDistance knnSearch points) = Returned d"
    by (auto simp: ComputeMinInterVertexDistance_def)
next
  assume one: "length points = 1"
  then obtain p where p: "points = [p]" by (cases points) auto
  have "length (knnSearch points p 2) = min 2 (length points)"
    using assms unfolding knn_returns_min_def by blast
  with one have "length (knnSearch points p 2) = 1"
    by simp
  then have "do_knn_search_min knnSearch points p = Crashed OutOfBounds"
    by (simp add: do_knn_search_min_def)
  with p show "fst (ComputeMinInterVertexDistance knnSearch points) = Crashed OutOfBounds"
    by (simp add: ComputeMinInterVertexDistance_def)
qed

text \<open>Claim C9 with the brute-force index, on two points and on one point.\<close>

theorem C9_min_distance_reads_in_bounds_witness:
  "knn_returns_min knnSearch_brute_force
   \<and> 2 \<le> length [(0, 0, 0), (1, 0, 0) :: point]
   \<and> do_knn_search_min knnSearch_brute_force [(0, 0, 0), (1, 0, 0)] (0, 0, 0) = Returned 1
   \<and> (\<exists>d. fst (ComputeMinInterVertexDistance knnSearch_brute_force [(0, 0, 0), (1, 0, 0)]) = Returned d)
   \<and> fst (ComputeMinInterVertexDistance knnSearch_brute_force [(0, 0, 0)]) = Crashed OutOfBounds"
proof -
  have k: "knnSearch_brute_force [(0, 0, 0), (1, 0, 0)] (0, 0, 0) 2 = [0, 1]"
    by (simp add: knnSearch_brute_force_def dist_sqr_def)
  show ?thesis
    using C9_min_distance_reads_in_bounds [OF knn_returns_min_brute_force, of "[(0, 0, 0), (1, 0, 0)]"]
      C9_min_distance_reads_in_bounds [OF knn_returns_min_brute_force, of "[(0, 0, 0)]"]
      knn_returns_min_brute_force k
    by simp
qed

subsection \<open>C10: sampling with a seed\<close>

text \<open>
  Claim C10: with a seed, \<open>ExportSampledVerticesToPLY\<close> draws the same sequence of
  vertex indices and gives the same result, events and file text in any two calls with
  the same mesh, the same \<open>nVerts\<close> and the same seed, whatever \<open>std::random_device\<close>
  would deliver (\<open>rd1\<close>, \<open>rd2\<close>): the random device is not read.
\<close>

theorem C10_seeded_sampling_is_deterministic:
  "SampledVertexIndices mt19937 distrib rd1 meshData nVerts (Some seed)
     = SampledVertexIndices mt19937 distrib rd2 meshData nVerts (Some seed)
   \<and> ExportSampledVerticesToPLY mt19937 distrib rd1 fmt writable meshData nVerts absFileName (Some seed)
     = ExportSampledVerticesToPLY mt19937 distrib rd2 fmt writable meshData nVerts absFileName (Some seed)"
  by (simp add: SampledVertexIndices_def ExportSampledVerticesToPLY_def)

text \<open>Claim C10 on a triangle, with a counter for the engine and a draw that takes the
  state modulo the range.\<close>

theorem C10_seeded_sampling_is_deterministic_witness:
  "SampledVertexIndices unat counter_draw 7 one_triangle 4 (Some 5)
     = SampledVertexIndices unat counter_draw 9 one_triangle 4 (Some 5)
   \<and> ExportSampledVerticesToPLY unat counter_draw 7 (\<lambda>s. s) (\<lambda>p. True) one_triangle 4 ''s.ply'' (Some 5)
     = ExportSampledVerticesToPLY unat counter_draw 9 (\<lambda>s. s) (\<lambda>p. True) one_triangle 4 ''s.ply'' (Some 5)
   \<and> SampledVertexIndices unat counter_draw 7 one_triangle 4 (Some 5) = [2, 0, 1, 2]"
proof -
  have "SampledVertexIndices unat counter_draw 7 one_triangle 4 (Some 5) = [2, 0, 1, 2]"
    by code_simp
  with C10_seeded_sampling_is_deterministic [of unat counter_draw 7 one_triangle 4 5 9
      "\<lambda>s. s" "\<lambda>p. True" "''s.ply''"]
  show ?thesis by simp
qed

end
